theory Spec2Isabelle
  imports Complex_Main
begin

section \<open>JSON values and the Python operations the client applies to them\<close>

text \<open>
  Every value the client handles comes out of \<open>response.json()\<close>: \<open>None\<close>, a bool, an
  int, a float, a str, a list or a dict with string keys. A dict is an association list
  read with \<open>map_of\<close>; the parser yields each key once. A float is carried as the
  rational it denotes (NaN and the infinities are left out).
\<close>

datatype json =
    JNull
  | JBool bool
  | JInt int
  | JFloat rat
  | JStr string
  | JList "json list"
  | JObj "(string \<times> json) list"

text \<open>
  The exceptions that can travel through \<open>redash_client.py\<close> and \<open>main.py\<close>:
  \<open>HTTPError\<close> from \<open>raise_for_status()\<close> (with the status code),
  \<open>JSONDecodeError\<close> from \<open>.json()\<close>, \<open>KeyError\<close> (with the key) and
  \<open>TypeError\<close> from a subscript or an \<open>in\<close> test, \<open>AttributeError\<close> from
  \<open>.get\<close> or \<open>.keys\<close> on a value that is no dict (both with the Python type name
  of the offending value), the bare \<open>Exception(msg)\<close> the client raises itself, and the
  \<open>ValueError(msg)\<close> of the handlers.
\<close>

datatype error =
    HTTPError nat
  | JSONDecodeError
  | KeyError string
  | TypeError string
  | AttributeError string
  | Exception string
  | ValueError string

fun type_name :: "json \<Rightarrow> string" where
  "type_name JNull = ''NoneType''"
| "type_name (JBool _) = ''bool''"
| "type_name (JInt _) = ''int''"
| "type_name (JFloat _) = ''float''"
| "type_name (JStr _) = ''str''"
| "type_name (JList _) = ''list''"
| "type_name (JObj _) = ''dict''"

text \<open>Python truthiness, as \<open>if not query_result\<close> and \<open>if parameters\<close> test it.\<close>

fun py_truthy :: "json \<Rightarrow> bool" where
  "py_truthy JNull = False"
| "py_truthy (JBool b) = b"
| "py_truthy (JInt n) = (n \<noteq> 0)"
| "py_truthy (JFloat r) = (r \<noteq> 0)"
| "py_truthy (JStr s) = (s \<noteq> [])"
| "py_truthy (JList xs) = (xs \<noteq> [])"
| "py_truthy (JObj kvs) = (kvs \<noteq> [])"

text \<open>\<open>d.get(k, default)\<close>: \<open>dict_get\<close> is the method of a dict, and only a dict has
  it.\<close>

definition dict_get :: "(string \<times> json) list \<Rightarrow> string \<Rightarrow> json \<Rightarrow> json" where
  "dict_get kvs k dflt = (case map_of kvs k of Some v \<Rightarrow> v | None \<Rightarrow> dflt)"

fun py_get :: "json \<Rightarrow> string \<Rightarrow> json \<Rightarrow> error + json" where
  "py_get (JObj kvs) k dflt = Inr (dict_get kvs k dflt)"
| "py_get v k dflt = Inl (AttributeError (type_name v))"

text \<open>\<open>d[k]\<close> with a string key: a missing key raises, and so does every value that is
  no dict (a list and a str want integer indices).\<close>

fun py_subscript :: "json \<Rightarrow> string \<Rightarrow> error + json" where
  "py_subscript (JObj kvs) k = (case map_of kvs k of Some v \<Rightarrow> Inr v | None \<Rightarrow> Inl (KeyError k))"
| "py_subscript v k = Inl (TypeError (type_name v))"

text \<open>\<open>s in t\<close> on strings is the substring test.\<close>

fun is_substring :: "string \<Rightarrow> string \<Rightarrow> bool" where
  "is_substring s [] = (s = [])"
| "is_substring s (c # cs) = (take (length s) (c # cs) = s \<or> is_substring s cs)"

text \<open>\<open>k in v\<close> for a string \<open>k\<close>: key membership in a dict, element membership in a
  list, substring in a str, \<open>TypeError\<close> on the rest.\<close>

fun py_in :: "string \<Rightarrow> json \<Rightarrow> error + bool" where
  "py_in k (JObj kvs) = Inr (map_of kvs k \<noteq> None)"
| "py_in k (JList xs) = Inr (JStr k \<in> set xs)"
| "py_in k (JStr s) = Inr (is_substring k s)"
| "py_in k v = Inl (TypeError (type_name v))"

text \<open>\<open>x == n\<close> for an int literal \<open>n\<close>: numbers compare by value, \<open>True\<close> is 1 and
  \<open>False\<close> is 0, nothing else equals a number.\<close>

fun py_eq_int :: "json \<Rightarrow> int \<Rightarrow> bool" where
  "py_eq_int (JInt m) n = (m = n)"
| "py_eq_int (JFloat r) n = (r = of_int n)"
| "py_eq_int (JBool b) n = ((if b then 1 else 0) = n)"
| "py_eq_int v n = False"

text \<open>
  \<open>str(v)\<close>, as an f-string applies it: a str is itself; for every other value it is the
  interpreter's \<open>repr\<close>, taken as the parameter \<open>rp\<close>.
\<close>

fun py_str :: "(json \<Rightarrow> string) \<Rightarrow> json \<Rightarrow> string" where
  "py_str rp (JStr s) = s"
| "py_str rp v = rp v"

text \<open>\<open>list(d.keys())\<close>.\<close>

fun py_keys :: "json \<Rightarrow> error + json" where
  "py_keys (JObj kvs) = Inr (JList (map (\<lambda>kv. JStr (fst kv)) kvs))"
| "py_keys v = Inl (AttributeError (type_name v))"

section \<open>The result normalizer\<close>

text \<open>
  \<open>RedashClient._format_query_result(result, query)\<close>. The dict display evaluates its
  values from left to right, so the first failing \<open>.get\<close> decides the exception.
\<close>

definition format_query_result :: "json \<Rightarrow> string \<Rightarrow> error + json" where
  "format_query_result result query =
    (case py_get result ''query_result'' result of
       Inl e \<Rightarrow> Inl e
     | Inr query_result \<Rightarrow>
        if \<not> py_truthy query_result then Inl (Exception ''No query result in response'')
        else
        (case py_get query_result ''id'' JNull of Inl e \<Rightarrow> Inl e | Inr rid \<Rightarrow>
        (case (if query \<noteq> [] then Inr (JStr query)
               else py_get query_result ''query'' (JStr [])) of Inl e \<Rightarrow> Inl e | Inr q \<Rightarrow>
        (case py_get query_result ''data'' (JObj []) of Inl e \<Rightarrow> Inl e | Inr d1 \<Rightarrow>
        (case py_get d1 ''columns'' (JList []) of Inl e \<Rightarrow> Inl e | Inr cols \<Rightarrow>
        (case py_get query_result ''data'' (JObj []) of Inl e \<Rightarrow> Inl e | Inr d2 \<Rightarrow>
        (case py_get d2 ''rows'' (JList []) of Inl e \<Rightarrow> Inl e | Inr rows \<Rightarrow>
        (case py_get query_result ''data_source_id'' JNull of Inl e \<Rightarrow> Inl e | Inr ds \<Rightarrow>
        (case py_get query_result ''runtime'' (JInt 0) of Inl e \<Rightarrow> Inl e | Inr rt \<Rightarrow>
        (case py_get query_result ''retrieved_at'' JNull of Inl e \<Rightarrow> Inl e | Inr ra \<Rightarrow>
          Inr (JObj [(''query_result'', JObj
                [(''id'', rid),
                 (''query'', q),
                 (''data'', JObj [(''columns'', cols), (''rows'', rows)]),
                 (''data_source_id'', ds),
                 (''runtime'', rt),
                 (''retrieved_at'', ra)])])))))))))))"

section \<open>The service, seen from the client\<close>

text \<open>
  What \<open>requests.get\<close> and \<open>requests.post\<close> send, and what they return. The service
  is the stream of responses it is going to give, one per request in the order the
  requests are made; since the stream is arbitrary, it stands for every behaviour of the
  service. \<open>sent\<close> records the requests made, oldest first, and \<open>slept\<close> the seconds
  spent in \<open>time.sleep\<close>. A body that is not JSON is \<open>None\<close>. Every request gets a
  response: a connection that fails before any response arrives is left out.
\<close>

record request =
  req_method :: string
  req_url :: string
  req_json :: "json option"
  req_headers :: "(string \<times> string) list"

record response =
  status_code :: nat
  content :: "json option"

record world =
  incoming :: "nat \<Rightarrow> response"
  sent :: "request list"
  slept :: nat

definition http_request :: "request \<Rightarrow> world \<Rightarrow> response \<times> world" where
  "http_request rq w =
     (incoming w 0, w\<lparr>incoming := (\<lambda>n. incoming w (Suc n)), sent := sent w @ [rq]\<rparr>)"

definition requests_get :: "string \<Rightarrow> (string \<times> string) list \<Rightarrow> world \<Rightarrow> response \<times> world" where
  "requests_get u hs w =
     http_request \<lparr>req_method = ''GET'', req_url = u, req_json = None, req_headers = hs\<rparr> w"

definition requests_post ::
  "string \<Rightarrow> json option \<Rightarrow> (string \<times> string) list \<Rightarrow> world \<Rightarrow> response \<times> world" where
  "requests_post u js hs w =
     http_request \<lparr>req_method = ''POST'', req_url = u, req_json = js, req_headers = hs\<rparr> w"

text \<open>\<open>response.raise_for_status()\<close> raises on the client and server error codes.\<close>

definition raise_for_status :: "response \<Rightarrow> error + unit" where
  "raise_for_status r =
     (if 400 \<le> status_code r \<and> status_code r < 600 then Inl (HTTPError (status_code r))
      else Inr ())"

definition response_json :: "response \<Rightarrow> error + json" where
  "response_json r = (case content r of None \<Rightarrow> Inl JSONDecodeError | Some v \<Rightarrow> Inr v)"

definition sleep :: "nat \<Rightarrow> world \<Rightarrow> world" where
  "sleep n w = w\<lparr>slept := slept w + n\<rparr>"

section \<open>The client\<close>

text \<open>
  The attributes \<open>__init__\<close> sets, and what the client takes from the interpreter and
  its libraries: \<open>repr\<close> of a value, \<open>hashlib.md5(s.encode()).hexdigest()\<close>, the
  \<open>str\<close> of an exception the program did not build itself, and the constructor of the
  pydantic model \<open>QueryResponse\<close> of \<open>main.py\<close>, which validates its three
  arguments \<open>answer\<close>, \<open>sql_query\<close> and \<open>data\<close> or raises.
\<close>

record RedashClient =
  base_url :: string
  api_key :: string
  data_source_id :: int
  headers :: "(string \<times> string) list"

record QueryResponse =
  answer :: string
  sql_query :: "string option"
  data :: "(string \<times> json) list option"

record library =
  py_repr :: "json \<Rightarrow> string"
  md5_hexdigest :: "string \<Rightarrow> string"
  lib_exc_str :: "error \<Rightarrow> string"
  new_QueryResponse :: "json \<Rightarrow> json \<Rightarrow> json \<Rightarrow> error + QueryResponse"

definition QUERY_STATUS_COMPLETED :: int where
  "QUERY_STATUS_COMPLETED = 3"

definition QUERY_STATUS_FAILED :: int where
  "QUERY_STATUS_FAILED = 4"

definition POLL_INTERVAL :: nat where
  "POLL_INTERVAL = 1"

definition get_query_hash :: "library \<Rightarrow> string \<Rightarrow> string" where
  "get_query_hash lib query = md5_hexdigest lib query"

text \<open>
  \<open>_poll_job_status\<close>: \<open>while True\<close> with no bound, so the loop is a partial function
  and \<open>None\<close> is the run that never leaves it.
\<close>

partial_function (option) poll_job_status ::
  "library \<Rightarrow> RedashClient \<Rightarrow> json \<Rightarrow> world \<Rightarrow> ((error + json) \<times> world) option" where
  "poll_job_status lib self job_id w =
    (case requests_get (base_url self @ ''/api/jobs/'' @ py_str (py_repr lib) job_id)
            (headers self) w of
      (job_status, w1) \<Rightarrow>
      (case raise_for_status job_status of Inl e \<Rightarrow> Some (Inl e, w1) | Inr _ \<Rightarrow>
      (case response_json job_status of Inl e \<Rightarrow> Some (Inl e, w1) | Inr status_data \<Rightarrow>
      (case py_subscript status_data ''job'' of Inl e \<Rightarrow> Some (Inl e, w1) | Inr job \<Rightarrow>
      (case py_subscript job ''status'' of Inl e \<Rightarrow> Some (Inl e, w1) | Inr status \<Rightarrow>
        if py_eq_int status QUERY_STATUS_COMPLETED then Some (Inr job, w1)
        else if py_eq_int status QUERY_STATUS_FAILED then
          (case py_get job ''error'' (JStr ''Unknown error'') of
             Inl e \<Rightarrow> Some (Inl e, w1)
           | Inr err \<Rightarrow>
               Some (Inl (Exception (''Query execution failed: '' @ py_str (py_repr lib) err)), w1))
        else poll_job_status lib self job_id (sleep POLL_INTERVAL w1))))))"

text \<open>
  \<open>list_data_sources\<close>.
\<close>

definition list_data_sources :: "RedashClient \<Rightarrow> world \<Rightarrow> (error + json) \<times> world" where
  "list_data_sources self w =
    (case requests_get (base_url self @ ''/api/data_sources'') (headers self) w of
      (response, w1) \<Rightarrow>
      (case raise_for_status response of Inl e \<Rightarrow> (Inl e, w1) | Inr _ \<Rightarrow>
        (response_json response, w1)))"

text \<open>
  \<open>execute_query\<close>. The \<open>except Exception\<close> clause logs and re-raises, so it changes
  no outcome. \<open>data_source_id or self.data_source_id\<close> takes the default for
  \<open>None\<close> and for 0.
\<close>

definition execute_query ::
  "library \<Rightarrow> RedashClient \<Rightarrow> string \<Rightarrow> int option \<Rightarrow> world
     \<Rightarrow> ((error + json) \<times> world) option" where
  "execute_query lib self query ds_id w =
    (let ds = (case ds_id of None \<Rightarrow> data_source_id self
                | Some n \<Rightarrow> if n \<noteq> 0 then n else data_source_id self);
         query_data = JObj
           [(''query'', JStr query),
            (''data_source_id'', JInt ds),
            (''name'', JStr (''MCP Query - '' @ take 8 (get_query_hash lib query)))]
     in
     case requests_post (base_url self @ ''/api/queries'') (Some query_data) (headers self) w of
      (response, w1) \<Rightarrow>
      (case raise_for_status response of Inl e \<Rightarrow> Some (Inl e, w1) | Inr _ \<Rightarrow>
      (case response_json response of Inl e \<Rightarrow> Some (Inl e, w1) | Inr created \<Rightarrow>
      (case py_subscript created ''id'' of Inl e \<Rightarrow> Some (Inl e, w1) | Inr query_id \<Rightarrow>
      (case requests_post
              (base_url self @ ''/api/queries/'' @ py_str (py_repr lib) query_id @ ''/results'')
              None (headers self) w1 of
        (job_response, w2) \<Rightarrow>
        (case raise_for_status job_response of Inl e \<Rightarrow> Some (Inl e, w2) | Inr _ \<Rightarrow>
        (case response_json job_response of Inl e \<Rightarrow> Some (Inl e, w2) | Inr job_data \<Rightarrow>
        (case py_in ''query_result'' job_data of Inl e \<Rightarrow> Some (Inl e, w2) | Inr immediate \<Rightarrow>
          if immediate then Some (format_query_result job_data query, w2)
          else
          (case py_in ''job'' job_data of Inl e \<Rightarrow> Some (Inl e, w2) | Inr queued \<Rightarrow>
            if queued then
              (case py_subscript job_data ''job'' of Inl e \<Rightarrow> Some (Inl e, w2) | Inr job \<Rightarrow>
              (case py_subscript job ''id'' of Inl e \<Rightarrow> Some (Inl e, w2) | Inr job_id \<Rightarrow>
              (case poll_job_status lib self job_id w2 of
                 None \<Rightarrow> None
               | Some (Inl e, w3) \<Rightarrow> Some (Inl e, w3)
               | Some (Inr job_result, w3) \<Rightarrow>
                 (case py_subscript job_result ''query_result_id'' of
                    Inl e \<Rightarrow> Some (Inl e, w3)
                  | Inr result_id \<Rightarrow>
                    (case requests_get
                            (base_url self @ ''/api/query_results/'' @ py_str (py_repr lib) result_id)
                            (headers self) w3 of
                      (result_response, w4) \<Rightarrow>
                      (case raise_for_status result_response of
                         Inl e \<Rightarrow> Some (Inl e, w4)
                       | Inr _ \<Rightarrow>
                         (case response_json result_response of
                            Inl e \<Rightarrow> Some (Inl e, w4)
                          | Inr result_data \<Rightarrow>
                              Some (format_query_result result_data query, w4))))))))
            else
              (case py_keys job_data of Inl e \<Rightarrow> Some (Inl e, w2) | Inr ks \<Rightarrow>
                Some (Inl (Exception (''Invalid response format. Keys: '' @ py_repr lib ks)),
                      w2)))))))))))"

text \<open>
  \<open>execute_predefined_query\<close>. \<open>if parameters\<close> is the truthiness of the argument:
  \<open>None\<close> and the empty dict both give the empty payload.
\<close>

definition execute_predefined_query ::
  "library \<Rightarrow> RedashClient \<Rightarrow> int \<Rightarrow> (string \<times> json) list option \<Rightarrow> world
     \<Rightarrow> ((error + json) \<times> world) option" where
  "execute_predefined_query lib self query_id parameters w =
    (let job_data = (case parameters of None \<Rightarrow> JObj []
                      | Some ps \<Rightarrow> if py_truthy (JObj ps) then JObj [(''parameters'', JObj ps)]
                                  else JObj [])
     in
     case requests_post
            (base_url self @ ''/api/queries/'' @ py_str (py_repr lib) (JInt query_id) @ ''/results'')
            (Some job_data) (headers self) w of
      (job_response, w1) \<Rightarrow>
      (case raise_for_status job_response of Inl e \<Rightarrow> Some (Inl e, w1) | Inr _ \<Rightarrow>
      (case response_json job_response of Inl e \<Rightarrow> Some (Inl e, w1) | Inr body \<Rightarrow>
      (case py_in ''job'' body of Inl e \<Rightarrow> Some (Inl e, w1) | Inr queued \<Rightarrow>
        if \<not> queued then
          Some (Inl (Exception (''Invalid response format: '' @ py_str (py_repr lib) body)), w1)
        else
        (case py_subscript body ''job'' of Inl e \<Rightarrow> Some (Inl e, w1) | Inr job \<Rightarrow>
        (case py_subscript job ''id'' of Inl e \<Rightarrow> Some (Inl e, w1) | Inr job_id \<Rightarrow>
        (case poll_job_status lib self job_id w1 of
           None \<Rightarrow> None
         | Some (Inl e, w2) \<Rightarrow> Some (Inl e, w2)
         | Some (Inr job_result, w2) \<Rightarrow>
           (case py_subscript job_result ''query_result_id'' of
              Inl e \<Rightarrow> Some (Inl e, w2)
            | Inr result_id \<Rightarrow>
              (case requests_get
                      (base_url self @ ''/api/query_results/'' @ py_str (py_repr lib) result_id)
                      (headers self) w2 of
                (result_response, w3) \<Rightarrow>
                (case raise_for_status result_response of
                   Inl e \<Rightarrow> Some (Inl e, w3)
                 | Inr _ \<Rightarrow>
                   (case response_json result_response of
                      Inl e \<Rightarrow> Some (Inl e, w3)
                    | Inr result_data \<Rightarrow>
                        Some (format_query_result result_data [], w3))))))))))))"

section \<open>The gateway\<close>

text \<open>
  The handlers of \<open>main.py\<close>. Each is a \<open>try\<close> body and an \<open>except Exception\<close>
  clause that turns whatever the body raised into an \<open>HTTPException\<close> with
  \<open>status.HTTP_500_INTERNAL_SERVER_ERROR\<close> and a detail text built from \<open>str(e)\<close>.
\<close>

datatype HTTPException = HTTPException nat string

record QueryRequest =
  rq_question :: string
  rq_sql_query :: "string option"

record PredefinedQueryRequest =
  rq_parameters :: "(string \<times> json) list option"

definition HTTP_500_INTERNAL_SERVER_ERROR :: nat where
  "HTTP_500_INTERNAL_SERVER_ERROR = 500"

definition exc_str :: "library \<Rightarrow> error \<Rightarrow> string" where
  "exc_str lib e =
     (case e of Exception m \<Rightarrow> m | ValueError m \<Rightarrow> m | _ \<Rightarrow> lib_exc_str lib e)"

definition get_data_sources ::
  "library \<Rightarrow> RedashClient \<Rightarrow> world \<Rightarrow> (HTTPException + json) \<times> world" where
  "get_data_sources lib redash_client w =
    (case list_data_sources redash_client w of
       (Inl e, w1) \<Rightarrow>
         (Inl (HTTPException HTTP_500_INTERNAL_SERVER_ERROR
                 (''Failed to fetch data sources: '' @ exc_str lib e)), w1)
     | (Inr data_sources, w1) \<Rightarrow> (Inr (JObj [(''data_sources'', data_sources)]), w1))"

text \<open>\<open>request.sql_query or request.question\<close>.\<close>

definition chosen_sql :: "QueryRequest \<Rightarrow> string" where
  "chosen_sql request =
     (case rq_sql_query request of None \<Rightarrow> rq_question request
      | Some s \<Rightarrow> if s \<noteq> [] then s else rq_question request)"

text \<open>What \<open>ask_question\<close> does with the value \<open>execute_query\<close> returned.\<close>

definition ask_question_result :: "library \<Rightarrow> string \<Rightarrow> json \<Rightarrow> error + QueryResponse" where
  "ask_question_result lib sql result =
    (case (case result of JObj _ \<Rightarrow> py_in ''query_result'' result | _ \<Rightarrow> Inr False) of
       Inl e \<Rightarrow> Inl e
     | Inr present \<Rightarrow>
        if \<not> present then Inl (ValueError ''Invalid response format from Redash'')
        else
        (case py_subscript result ''query_result'' of Inl e \<Rightarrow> Inl e | Inr d \<Rightarrow>
          new_QueryResponse lib (JStr ''Here are the results from your query'') (JStr sql) d))"

definition ask_question ::
  "library \<Rightarrow> RedashClient \<Rightarrow> QueryRequest \<Rightarrow> world
     \<Rightarrow> ((HTTPException + QueryResponse) \<times> world) option" where
  "ask_question lib redash_client request w =
    (case execute_query lib redash_client (chosen_sql request) None w of
       None \<Rightarrow> None
     | Some (r, w1) \<Rightarrow>
        (case (case r of Inl e \<Rightarrow> Inl e
               | Inr result \<Rightarrow> ask_question_result lib (chosen_sql request) result) of
           Inl e \<Rightarrow>
             Some (Inl (HTTPException HTTP_500_INTERNAL_SERVER_ERROR
                     (''Query execution failed: '' @ exc_str lib e)), w1)
         | Inr resp \<Rightarrow> Some (Inr resp, w1)))"

text \<open>What \<open>ask_predefined_question\<close> does with the value
  \<open>execute_predefined_query\<close> returned.\<close>

definition ask_predefined_result :: "library \<Rightarrow> json \<Rightarrow> error + QueryResponse" where
  "ask_predefined_result lib result =
    (case py_get result ''query_result'' (JObj []) of Inl e \<Rightarrow> Inl e | Inr query_result \<Rightarrow>
      if \<not> py_truthy query_result then Inl (ValueError ''No query result in response'')
      else
      (case py_get query_result ''query'' (JStr []) of Inl e \<Rightarrow> Inl e | Inr q \<Rightarrow>
        new_QueryResponse lib (JStr ''Here are the results from your query'') q query_result))"

definition ask_predefined_question ::
  "library \<Rightarrow> RedashClient \<Rightarrow> int \<Rightarrow> PredefinedQueryRequest \<Rightarrow> world
     \<Rightarrow> ((HTTPException + QueryResponse) \<times> world) option" where
  "ask_predefined_question lib redash_client query_id request w =
    (case execute_predefined_query lib redash_client query_id (rq_parameters request) w of
       None \<Rightarrow> None
     | Some (r, w1) \<Rightarrow>
        (case (case r of Inl e \<Rightarrow> Inl e | Inr result \<Rightarrow> ask_predefined_result lib result) of
           Inl e \<Rightarrow> Some (Inl (HTTPException HTTP_500_INTERNAL_SERVER_ERROR (exc_str lib e)), w1)
         | Inr resp \<Rightarrow> Some (Inr resp, w1)))"

section \<open>Notions the statements use\<close>

text \<open>The shape of every value the normalizer returns.\<close>

definition normalized :: "json \<Rightarrow> json \<Rightarrow> json \<Rightarrow> json \<Rightarrow> json \<Rightarrow> json \<Rightarrow> json \<Rightarrow> json" where
  "normalized rid q cols rows ds rt ra =
     JObj [(''query_result'', JObj
            [(''id'', rid),
             (''query'', q),
             (''data'', JObj [(''columns'', cols), (''rows'', rows)]),
             (''data_source_id'', ds),
             (''runtime'', rt),
             (''retrieved_at'', ra)])]"

text \<open>
  The request one pass of the polling loop sends, and what the pass decides from the
  response it gets: \<open>Some\<close> outcome when the loop is left (a return or a raise),
  \<open>None\<close> when it sleeps and polls again.
\<close>

definition job_request :: "library \<Rightarrow> RedashClient \<Rightarrow> json \<Rightarrow> request" where
  "job_request lib self job_id =
     \<lparr>req_method = ''GET'',
      req_url = base_url self @ ''/api/jobs/'' @ py_str (py_repr lib) job_id,
      req_json = None,
      req_headers = headers self\<rparr>"

definition job_tick :: "library \<Rightarrow> response \<Rightarrow> (error + json) option" where
  "job_tick lib r =
    (case raise_for_status r of Inl e \<Rightarrow> Some (Inl e) | Inr _ \<Rightarrow>
    (case response_json r of Inl e \<Rightarrow> Some (Inl e) | Inr status_data \<Rightarrow>
    (case py_subscript status_data ''job'' of Inl e \<Rightarrow> Some (Inl e) | Inr job \<Rightarrow>
    (case py_subscript job ''status'' of Inl e \<Rightarrow> Some (Inl e) | Inr status \<Rightarrow>
       if py_eq_int status QUERY_STATUS_COMPLETED then Some (Inr job)
       else if py_eq_int status QUERY_STATUS_FAILED then
         (case py_get job ''error'' (JStr ''Unknown error'') of
            Inl e \<Rightarrow> Some (Inl e)
          | Inr err \<Rightarrow>
              Some (Inl (Exception (''Query execution failed: '' @ py_str (py_repr lib) err))))
       else None))))"

text \<open>
  The job object and the status a response reports, when it is a status report at all:
  no error code, a JSON body, a \<open>job\<close> in it with a \<open>status\<close>.
\<close>

definition observed :: "response \<Rightarrow> (json \<times> json) option" where
  "observed r =
    (case raise_for_status r of Inl e \<Rightarrow> None | Inr _ \<Rightarrow>
    (case response_json r of Inl e \<Rightarrow> None | Inr status_data \<Rightarrow>
    (case py_subscript status_data ''job'' of Inl e \<Rightarrow> None | Inr job \<Rightarrow>
    (case py_subscript job ''status'' of Inl e \<Rightarrow> None | Inr status \<Rightarrow>
       Some (job, status)))))"

definition completed :: "response \<Rightarrow> bool" where
  "completed r =
     (case observed r of None \<Rightarrow> False
      | Some (job, status) \<Rightarrow> py_eq_int status QUERY_STATUS_COMPLETED)"

definition failed :: "response \<Rightarrow> bool" where
  "failed r =
     (case observed r of None \<Rightarrow> False
      | Some (job, status) \<Rightarrow> py_eq_int status QUERY_STATUS_FAILED)"

definition pending :: "response \<Rightarrow> bool" where
  "pending r =
     (case observed r of None \<Rightarrow> False
      | Some (job, status) \<Rightarrow>
          \<not> py_eq_int status QUERY_STATUS_COMPLETED \<and> \<not> py_eq_int status QUERY_STATUS_FAILED)"

text \<open>
  The world after \<open>n\<close> requests \<open>rq\<close> have been answered, and the world after the
  loop has gone round \<open>n\<close> times without leaving (\<open>n\<close> fetches, each followed by a
  sleep), and the world in which the loop is left on its pass number \<open>n\<close>, counted
  from 0 (\<open>n + 1\<close> fetches with a sleep between consecutive ones).
\<close>

definition fetched :: "request \<Rightarrow> nat \<Rightarrow> world \<Rightarrow> world" where
  "fetched rq n w = w\<lparr>incoming := (\<lambda>k. incoming w (k + n)), sent := sent w @ replicate n rq\<rparr>"

definition polled :: "request \<Rightarrow> nat \<Rightarrow> world \<Rightarrow> world" where
  "polled rq n w =
     w\<lparr>incoming := (\<lambda>k. incoming w (k + n)), sent := sent w @ replicate n rq,
       slept := slept w + n * POLL_INTERVAL\<rparr>"

definition left_at :: "request \<Rightarrow> nat \<Rightarrow> world \<Rightarrow> world" where
  "left_at rq n w =
     w\<lparr>incoming := (\<lambda>k. incoming w (k + Suc n)), sent := sent w @ replicate (Suc n) rq,
       slept := slept w + n * POLL_INTERVAL\<rparr>"

text \<open>
  A well-formed answer to a status fetch, a service that starts with nothing sent and
  nothing slept, and a library and a client to run the definitions on.
\<close>

definition status_report :: "json \<Rightarrow> response" where
  "status_report job = \<lparr>status_code = 200, content = Some (JObj [(''job'', job)])\<rparr>"

definition example_library :: library where
  "example_library =
     \<lparr>py_repr = (\<lambda>v. ''<repr>''), md5_hexdigest = (\<lambda>s. ''d41d8cd98f00b204e9800998ecf8427e''),
      lib_exc_str = (\<lambda>e. ''<str>''),
      new_QueryResponse = (\<lambda>a q d. Inl (ValueError ''validation''))\<rparr>"

definition example_client :: RedashClient where
  "example_client =
     \<lparr>base_url = ''http://redash'', api_key = ''k'', data_source_id = 6,
      headers = [(''Authorization'', ''Key k''), (''Content-Type'', ''application/json'')]\<rparr>"

definition service :: "(nat \<Rightarrow> response) \<Rightarrow> world" where
  "service rs = \<lparr>incoming = rs, sent = [], slept = 0\<rparr>"

text \<open>
  The requests the two execute functions send, and the world after the requests
  \<open>rqs\<close> have been answered in turn.
\<close>

definition create_request :: "library \<Rightarrow> RedashClient \<Rightarrow> string \<Rightarrow> int option \<Rightarrow> request" where
  "create_request lib self query ds_id =
     \<lparr>req_method = ''POST'',
      req_url = base_url self @ ''/api/queries'',
      req_json = Some (JObj
        [(''query'', JStr query),
         (''data_source_id'',
            JInt (case ds_id of None \<Rightarrow> data_source_id self
                  | Some n \<Rightarrow> if n \<noteq> 0 then n else data_source_id self)),
         (''name'', JStr (''MCP Query - '' @ take 8 (get_query_hash lib query)))]),
      req_headers = headers self\<rparr>"

definition trigger_request :: "library \<Rightarrow> RedashClient \<Rightarrow> json \<Rightarrow> request" where
  "trigger_request lib self query_id =
     \<lparr>req_method = ''POST'',
      req_url = base_url self @ ''/api/queries/'' @ py_str (py_repr lib) query_id @ ''/results'',
      req_json = None,
      req_headers = headers self\<rparr>"

definition result_request :: "library \<Rightarrow> RedashClient \<Rightarrow> json \<Rightarrow> request" where
  "result_request lib self result_id =
     \<lparr>req_method = ''GET'',
      req_url = base_url self @ ''/api/query_results/'' @ py_str (py_repr lib) result_id,
      req_json = None,
      req_headers = headers self\<rparr>"

definition predefined_request ::
  "library \<Rightarrow> RedashClient \<Rightarrow> int \<Rightarrow> (string \<times> json) list option \<Rightarrow> request" where
  "predefined_request lib self query_id parameters =
     \<lparr>req_method = ''POST'',
      req_url = base_url self @ ''/api/queries/'' @ py_str (py_repr lib) (JInt query_id) @ ''/results'',
      req_json = Some (case parameters of None \<Rightarrow> JObj []
                       | Some ps \<Rightarrow> if py_truthy (JObj ps) then JObj [(''parameters'', JObj ps)]
                                   else JObj []),
      req_headers = headers self\<rparr>"

definition answered :: "request list \<Rightarrow> world \<Rightarrow> world" where
  "answered rqs w =
     w\<lparr>incoming := (\<lambda>k. incoming w (k + length rqs)), sent := sent w @ rqs\<rparr>"

text \<open>The part of both execute functions that follows the polling loop: from
  \<open>job_result = self._poll_job_status(job_id)\<close> to the final \<open>return\<close>.\<close>

definition fetch_result ::
  "library \<Rightarrow> RedashClient \<Rightarrow> string \<Rightarrow> ((error + json) \<times> world) option
     \<Rightarrow> ((error + json) \<times> world) option" where
  "fetch_result lib self query waited =
     (case waited of
        None \<Rightarrow> None
      | Some (Inl e, w3) \<Rightarrow> Some (Inl e, w3)
      | Some (Inr job_result, w3) \<Rightarrow>
        (case py_subscript job_result ''query_result_id'' of
           Inl e \<Rightarrow> Some (Inl e, w3)
         | Inr result_id \<Rightarrow>
           (case requests_get
                   (base_url self @ ''/api/query_results/'' @ py_str (py_repr lib) result_id)
                   (headers self) w3 of
             (result_response, w4) \<Rightarrow>
             (case raise_for_status result_response of
                Inl e \<Rightarrow> Some (Inl e, w4)
              | Inr _ \<Rightarrow>
                (case response_json result_response of
                   Inl e \<Rightarrow> Some (Inl e, w4)
                 | Inr result_data \<Rightarrow>
                     Some (format_query_result result_data query, w4))))))"

text \<open>A success response with a JSON body.\<close>

definition json_response :: "json \<Rightarrow> response" where
  "json_response body = \<lparr>status_code = 200, content = Some body\<rparr>"

text \<open>The status codes on which \<open>raise_for_status()\<close> raises (those for which
  \<open>response.ok\<close> is false), and a response with such a code.\<close>

definition error_status :: "response \<Rightarrow> bool" where
  "error_status r \<longleftrightarrow> 400 \<le> status_code r \<and> status_code r < 600"

definition error_response :: "nat \<Rightarrow> response" where
  "error_response code = \<lparr>status_code = code, content = None\<rparr>"

text \<open>The request of \<open>list_data_sources\<close>.\<close>

definition data_sources_request :: "RedashClient \<Rightarrow> request" where
  "data_sources_request self =
     \<lparr>req_method = ''GET'', req_url = base_url self @ ''/api/data_sources'', req_json = None,
      req_headers = headers self\<rparr>"

section \<open>The normalizer, case by case\<close>

lemma dict_get_Nil: "dict_get [] k dflt = dflt"
  by (simp add: dict_get_def)

lemma format_payload_falsy:
  assumes "py_get result ''query_result'' result = Inr p" and "\<not> py_truthy p"
  shows "format_query_result result q = Inl (Exception ''No query result in response'')"
  using assms by (simp add: format_query_result_def)

lemma format_payload_not_dict:
  assumes "py_get result ''query_result'' result = Inr p" and "py_truthy p"
    and "\<forall>pk. p \<noteq> JObj pk"
  shows "format_query_result result q = Inl (AttributeError (type_name p))"
  using assms by (cases p) (simp_all add: format_query_result_def)

lemma format_payload_bad_data:
  assumes "py_get result ''query_result'' result = Inr (JObj pk)" and "pk \<noteq> []"
    and "\<forall>dk. dict_get pk ''data'' (JObj []) \<noteq> JObj dk"
  shows "format_query_result result q =
         Inl (AttributeError (type_name (dict_get pk ''data'' (JObj []))))"
  using assms
  by (cases "dict_get pk ''data'' (JObj [])") (simp_all add: format_query_result_def)

lemma format_payload_dict:
  assumes "py_get result ''query_result'' result = Inr (JObj pk)" and "pk \<noteq> []"
    and "dict_get pk ''data'' (JObj []) = JObj dk"
  shows "format_query_result result q =
     Inr (normalized (dict_get pk ''id'' JNull)
                     (if q \<noteq> [] then JStr q else dict_get pk ''query'' (JStr []))
                     (dict_get dk ''columns'' (JList []))
                     (dict_get dk ''rows'' (JList []))
                     (dict_get pk ''data_source_id'' JNull)
                     (dict_get pk ''runtime'' (JInt 0))
                     (dict_get pk ''retrieved_at'' JNull))"
  using assms by (simp add: format_query_result_def normalized_def)

lemma format_not_dict:
  assumes "\<forall>kvs. result \<noteq> JObj kvs"
  shows "format_query_result result q = Inl (AttributeError (type_name result))"
  using assms by (cases result) (simp_all add: format_query_result_def)

text \<open>Whatever the normalizer returns has the normalized shape, built from a payload that
  is a non-empty dict whose \<open>data\<close> is absent or a dict.\<close>

lemma format_returns:
  assumes "format_query_result r q = Inr out"
  obtains pk dk where "py_get r ''query_result'' r = Inr (JObj pk)" and "pk \<noteq> []"
    and "dict_get pk ''data'' (JObj []) = JObj dk"
    and "out = normalized (dict_get pk ''id'' JNull)
                     (if q \<noteq> [] then JStr q else dict_get pk ''query'' (JStr []))
                     (dict_get dk ''columns'' (JList []))
                     (dict_get dk ''rows'' (JList []))
                     (dict_get pk ''data_source_id'' JNull)
                     (dict_get pk ''runtime'' (JInt 0))
                     (dict_get pk ''retrieved_at'' JNull)"
proof -
  have "\<exists>kvs. r = JObj kvs"
    using assms format_not_dict[of r q] by auto
  then obtain p where p: "py_get r ''query_result'' r = Inr p" by auto
  have truthy: "py_truthy p"
    using assms format_payload_falsy[OF p, of q] by auto
  have "\<exists>pk. p = JObj pk"
    using assms format_payload_not_dict[OF p truthy, of q] by auto
  then obtain pk where pk: "p = JObj pk" by blast
  with truthy have ne: "pk \<noteq> []" by simp
  have "\<exists>dk. dict_get pk ''data'' (JObj []) = JObj dk"
    using assms format_payload_bad_data[OF p[unfolded pk] ne, of q] by auto
  then obtain dk where dk: "dict_get pk ''data'' (JObj []) = JObj dk" by blast
  show thesis
    using that[OF p[unfolded pk] ne dk] assms format_payload_dict[OF p[unfolded pk] ne dk, of q]
    by simp
qed

lemma format_normalized:
  "format_query_result (normalized rid (JStr q) cols rows ds rt ra) q =
   Inr (normalized rid (JStr q) cols rows ds rt ra)"
  by (simp add: format_query_result_def normalized_def dict_get_def)

lemma format_normalized_no_query:
  "format_query_result (normalized rid qv cols rows ds rt ra) [] =
   Inr (normalized rid qv cols rows ds rt ra)"
  by (simp add: format_query_result_def normalized_def dict_get_def)

text \<open>The three outcomes of the normalizer, by the payload it finds.\<close>

lemma format_outcomes:
  assumes p: "py_get result ''query_result'' result = Inr p"
  shows "(format_query_result result q = Inl (Exception ''No query result in response'')
      \<longleftrightarrow> \<not> py_truthy p) \<and>
   ((\<exists>out. format_query_result result q = Inr out)
      \<longleftrightarrow> (\<exists>pk dk. p = JObj pk \<and> pk \<noteq> [] \<and> dict_get pk ''data'' (JObj []) = JObj dk)) \<and>
   ((\<exists>t. format_query_result result q = Inl (AttributeError t))
      \<longleftrightarrow> py_truthy p \<and>
          \<not> (\<exists>pk dk. p = JObj pk \<and> pk \<noteq> [] \<and> dict_get pk ''data'' (JObj []) = JObj dk))"
proof -
  consider (falsy) "\<not> py_truthy p"
    | (other) "py_truthy p" "\<forall>pk. p \<noteq> JObj pk"
    | (bad_data) pk where "p = JObj pk" "pk \<noteq> []" "\<forall>dk. dict_get pk ''data'' (JObj []) \<noteq> JObj dk"
    | (good) pk dk where "p = JObj pk" "pk \<noteq> []" "dict_get pk ''data'' (JObj []) = JObj dk"
    by (cases p) auto
  then show ?thesis
  proof cases
    case falsy
    from format_payload_falsy[OF p falsy, of q] falsy show ?thesis by auto
  next
    case other
    from format_payload_not_dict[OF p other, of q] other show ?thesis by auto
  next
    case bad_data
    from format_payload_bad_data[OF p[unfolded bad_data(1)] bad_data(2,3), of q] bad_data
    show ?thesis by auto
  next
    case good
    from format_payload_dict[OF p[unfolded good(1)] good(2,3), of q] good
    show ?thesis by auto
  qed
qed

section \<open>Claims about the normalizer\<close>

text \<open>
  C1 (as the code has it). The claim says that the raw response \<open>{}\<close> is normalized to
  empty columns, empty rows and runtime 0. The guard \<open>if not query_result\<close> rejects it
  instead: \<open>{}\<close> is falsy, and the call raises
  \<open>Exception("No query result in response")\<close>.
\<close>

theorem C1_empty_response_is_rejected:
  "format_query_result (JObj []) ''SELECT 1'' =
   Inl (Exception ''No query result in response'')"
  by (simp add: format_query_result_def dict_get_def)

text \<open>
  C1, amended. For every query text the raw response \<open>{}\<close> makes the normalizer fail
  with \<open>Exception("No query result in response")\<close>; the defaults are substituted when
  the payload (the value under \<open>query_result\<close>, or the response itself when it has no
  such key) is a non-empty dict: if it has neither \<open>data\<close> nor \<open>runtime\<close>, the
  result has the empty column list, the empty row list and runtime 0.
\<close>

theorem C1_defaults_for_nonempty_payload:
  "format_query_result (JObj []) q = Inl (Exception ''No query result in response'') \<and>
   (py_get result ''query_result'' result = Inr (JObj pk) \<and> pk \<noteq> [] \<and>
    map_of pk ''data'' = None \<and> map_of pk ''runtime'' = None \<longrightarrow>
    format_query_result result q =
      Inr (normalized (dict_get pk ''id'' JNull)
                      (if q \<noteq> [] then JStr q else dict_get pk ''query'' (JStr []))
                      (JList []) (JList [])
                      (dict_get pk ''data_source_id'' JNull)
                      (JInt 0)
                      (dict_get pk ''retrieved_at'' JNull)))"
proof (intro conjI impI)
  show "format_query_result (JObj []) q = Inl (Exception ''No query result in response'')"
    by (rule format_payload_falsy[of _ "JObj []"]) (simp_all add: dict_get_def)
next
  assume a: "py_get result ''query_result'' result = Inr (JObj pk) \<and> pk \<noteq> [] \<and>
    map_of pk ''data'' = None \<and> map_of pk ''runtime'' = None"
  then have d: "dict_get pk ''data'' (JObj []) = JObj []"
    and rt: "dict_get pk ''runtime'' (JInt 0) = JInt 0"
    by (simp_all add: dict_get_def)
  from a have "format_query_result result q =
     Inr (normalized (dict_get pk ''id'' JNull)
                     (if q \<noteq> [] then JStr q else dict_get pk ''query'' (JStr []))
                     (dict_get [] ''columns'' (JList []))
                     (dict_get [] ''rows'' (JList []))
                     (dict_get pk ''data_source_id'' JNull)
                     (dict_get pk ''runtime'' (JInt 0))
                     (dict_get pk ''retrieved_at'' JNull))"
    by (intro format_payload_dict d) simp_all
  then show "format_query_result result q =
      Inr (normalized (dict_get pk ''id'' JNull)
                      (if q \<noteq> [] then JStr q else dict_get pk ''query'' (JStr []))
                      (JList []) (JList [])
                      (dict_get pk ''data_source_id'' JNull)
                      (JInt 0)
                      (dict_get pk ''retrieved_at'' JNull))"
    by (simp add: rt dict_get_Nil)
qed

theorem C1_defaults_for_nonempty_payload_witness:
  "py_get (JObj [(''id'', JInt 7)]) ''query_result'' (JObj [(''id'', JInt 7)])
     = Inr (JObj [(''id'', JInt 7)]) \<and>
   format_query_result (JObj [(''id'', JInt 7)]) ''SELECT 1'' =
     Inr (normalized (JInt 7) (JStr ''SELECT 1'') (JList []) (JList []) JNull (JInt 0) JNull)"
  using C1_defaults_for_nonempty_payload
    [of "''SELECT 1''" "JObj [(''id'', JInt 7)]" "[(''id'', JInt 7)]"]
  by (simp add: dict_get_def)

text \<open>
  C2 (as the code has it). The claim says that the normalizer either fails for want of a
  payload or returns a normalized result. For \<open>{"query_result": {"id": 1, "data": null}}\<close>
  the payload is found and is a non-empty dict, and the call still fails:
  \<open>query_result.get("data", {})\<close> is \<open>None\<close>, which has no \<open>get\<close>.
\<close>

theorem C2_payload_found_yet_no_result:
  "py_get (JObj [(''query_result'', JObj [(''id'', JInt 1), (''data'', JNull)])])
       ''query_result'' (JObj [(''query_result'', JObj [(''id'', JInt 1), (''data'', JNull)])])
     = Inr (JObj [(''id'', JInt 1), (''data'', JNull)]) \<and>
   py_truthy (JObj [(''id'', JInt 1), (''data'', JNull)]) \<and>
   format_query_result (JObj [(''query_result'', JObj [(''id'', JInt 1), (''data'', JNull)])])
       ''SELECT 1'' = Inl (AttributeError ''NoneType'')"
  by (simp add: format_query_result_def dict_get_def)

text \<open>
  C2, amended. For every raw response that is a dict and every query text, with the
  payload being the value under \<open>query_result\<close>, or the response itself when it has no
  such key: the normalizer fails with \<open>Exception("No query result in response")\<close> if and
  only if the payload is falsy (empty or null); it returns a normalized result if and only
  if the payload is a non-empty dict whose \<open>data\<close> is absent or a dict; in every other
  case it fails with an \<open>AttributeError\<close>.
\<close>

theorem C2_normalizer_outcomes:
  "(format_query_result (JObj kvs) q = Inl (Exception ''No query result in response'')
      \<longleftrightarrow> \<not> py_truthy (dict_get kvs ''query_result'' (JObj kvs))) \<and>
   ((\<exists>out. format_query_result (JObj kvs) q = Inr out)
      \<longleftrightarrow> (\<exists>pk dk. dict_get kvs ''query_result'' (JObj kvs) = JObj pk \<and> pk \<noteq> [] \<and>
                     dict_get pk ''data'' (JObj []) = JObj dk)) \<and>
   ((\<exists>t. format_query_result (JObj kvs) q = Inl (AttributeError t))
      \<longleftrightarrow> py_truthy (dict_get kvs ''query_result'' (JObj kvs)) \<and>
          \<not> (\<exists>pk dk. dict_get kvs ''query_result'' (JObj kvs) = JObj pk \<and> pk \<noteq> [] \<and>
                     dict_get pk ''data'' (JObj []) = JObj dk))"
proof -
  have "py_get (JObj kvs) ''query_result'' (JObj kvs)
        = Inr (dict_get kvs ''query_result'' (JObj kvs))"
    by simp
  from format_outcomes[OF this] show ?thesis .
qed

text \<open>
  C8. Normalization is idempotent: a value the normalizer returned for a query text is
  returned unchanged when it is normalized again with the same query text.
\<close>

theorem C8_normalization_idempotent:
  assumes "format_query_result r q = Inr out"
  shows "format_query_result out q = Inr out"
proof -
  from assms obtain pk dk where
    out: "out = normalized (dict_get pk ''id'' JNull)
                     (if q \<noteq> [] then JStr q else dict_get pk ''query'' (JStr []))
                     (dict_get dk ''columns'' (JList []))
                     (dict_get dk ''rows'' (JList []))
                     (dict_get pk ''data_source_id'' JNull)
                     (dict_get pk ''runtime'' (JInt 0))
                     (dict_get pk ''retrieved_at'' JNull)"
    by (rule format_returns)
  show ?thesis
  proof (cases "q = []")
    case True
    then show ?thesis unfolding out by (simp add: format_normalized_no_query)
  next
    case False
    then show ?thesis unfolding out by (simp add: format_normalized)
  qed
qed

theorem C8_normalization_idempotent_witness:
  "format_query_result
     (JObj [(''id'', JInt 42), (''data'', JObj [(''rows'', JList [JList [JInt 1]])])]) ''SELECT 1''
     = Inr (normalized (JInt 42) (JStr ''SELECT 1'') (JList []) (JList [JList [JInt 1]])
              JNull (JInt 0) JNull) \<and>
   format_query_result
     (normalized (JInt 42) (JStr ''SELECT 1'') (JList []) (JList [JList [JInt 1]])
              JNull (JInt 0) JNull) ''SELECT 1''
     = Inr (normalized (JInt 42) (JStr ''SELECT 1'') (JList []) (JList [JList [JInt 1]])
              JNull (JInt 0) JNull)"
proof -
  have first: "format_query_result
     (JObj [(''id'', JInt 42), (''data'', JObj [(''rows'', JList [JList [JInt 1]])])]) ''SELECT 1''
     = Inr (normalized (JInt 42) (JStr ''SELECT 1'') (JList []) (JList [JList [JInt 1]])
              JNull (JInt 0) JNull)"
    by (simp add: format_query_result_def normalized_def dict_get_def)
  from first C8_normalization_idempotent[OF first] show ?thesis by simp
qed

section \<open>The polling loop, pass by pass\<close>

lemma poll_unfold:
  "poll_job_status lib self job_id w =
     (case job_tick lib (incoming w 0) of
        Some r \<Rightarrow> Some (r, fetched (job_request lib self job_id) (Suc 0) w)
      | None \<Rightarrow> poll_job_status lib self job_id
                  (sleep POLL_INTERVAL (fetched (job_request lib self job_id) (Suc 0) w)))"
  by (subst poll_job_status.simps)
     (simp add: requests_get_def http_request_def job_tick_def fetched_def job_request_def
        split: sum.splits)

lemma polled_0: "polled rq 0 w = w"
  by (simp add: polled_def)

lemma polled_Suc: "polled rq n (sleep POLL_INTERVAL (fetched rq (Suc 0) w)) = polled rq (Suc n) w"
  by (simp add: polled_def sleep_def fetched_def replicate_app_Cons_same)

lemma fetched_polled: "fetched rq (Suc 0) (polled rq n w) = left_at rq n w"
  by (simp add: polled_def fetched_def left_at_def replicate_append_same)

lemma poll_skip:
  assumes "\<And>k. k < n \<Longrightarrow> job_tick lib (incoming w k) = None"
  shows "poll_job_status lib self job_id w =
         poll_job_status lib self job_id (polled (job_request lib self job_id) n w)"
  using assms
proof (induction n arbitrary: w)
  case 0
  show ?case by (simp add: polled_0)
next
  case (Suc n)
  let ?rq = "job_request lib self job_id"
  let ?w' = "sleep POLL_INTERVAL (fetched ?rq (Suc 0) w)"
  have t0: "job_tick lib (incoming w 0) = None" using Suc.prems[of 0] by simp
  have "poll_job_status lib self job_id w = poll_job_status lib self job_id ?w'"
    by (subst poll_unfold) (simp add: t0)
  also have "\<dots> = poll_job_status lib self job_id (polled ?rq n ?w')"
  proof (rule Suc.IH)
    fix k assume "k < n"
    then show "job_tick lib (incoming ?w' k) = None"
      using Suc.prems[of "Suc k"] by (simp add: sleep_def fetched_def)
  qed
  finally show ?case using polled_Suc[of ?rq n w] by simp
qed

lemma poll_exit:
  assumes "\<And>k. k < n \<Longrightarrow> job_tick lib (incoming w k) = None"
    and "job_tick lib (incoming w n) = Some r"
  shows "poll_job_status lib self job_id w = Some (r, left_at (job_request lib self job_id) n w)"
proof -
  let ?rq = "job_request lib self job_id"
  have "incoming (polled ?rq n w) 0 = incoming w n" by (simp add: polled_def)
  then have "poll_job_status lib self job_id (polled ?rq n w) = Some (r, fetched ?rq (Suc 0) (polled ?rq n w))"
    using assms(2) by (subst poll_unfold) simp
  then show ?thesis using poll_skip[OF assms(1), of n self job_id] by (simp add: fetched_polled)
qed

lemma poll_returns_tick:
  assumes "poll_job_status lib self job_id w = Some y"
  shows "\<exists>k. job_tick lib (incoming w k) \<noteq> None"
proof (rule poll_job_status.raw_induct
    [where P = "\<lambda>lib self job_id w y. \<exists>k. job_tick lib (incoming w k) \<noteq> None", OF _ assms],
    goal_cases)
  case (1 poll lib self job_id w y)
  show ?case
  proof (cases "job_tick lib (incoming w 0)")
    case (Some r)
    then show ?thesis by (intro exI[of _ 0]) simp
  next
    case None
    let ?w' = "sleep POLL_INTERVAL (fetched (job_request lib self job_id) (Suc 0) w)"
    have "poll lib self job_id ?w' = Some y"
      using 1(2) None
      by (simp add: requests_get_def http_request_def job_tick_def fetched_def job_request_def
            split: sum.splits if_splits)
    from 1(1)[OF this] obtain k where "job_tick lib (incoming ?w' k) \<noteq> None" by blast
    then have "job_tick lib (incoming w (Suc k)) \<noteq> None" by (simp add: sleep_def fetched_def)
    then show ?thesis by blast
  qed
qed

lemma poll_diverges:
  assumes "\<And>k. job_tick lib (incoming w k) = None"
  shows "poll_job_status lib self job_id w = None"
  using poll_returns_tick[of lib self job_id w] assms
  by (cases "poll_job_status lib self job_id w") auto

text \<open>A first pass that leaves the loop exists as soon as some pass does.\<close>

lemma first_tick:
  assumes "job_tick lib (incoming w k) \<noteq> None"
  shows "\<exists>n r. (\<forall>j<n. job_tick lib (incoming w j) = None) \<and>
               job_tick lib (incoming w n) = Some r"
proof -
  define n where "n = (LEAST j. job_tick lib (incoming w j) \<noteq> None)"
  have "job_tick lib (incoming w n) \<noteq> None"
    unfolding n_def using assms by (rule LeastI)
  then obtain r where r: "job_tick lib (incoming w n) = Some r" by blast
  have "job_tick lib (incoming w j) = None" if "j < n" for j
    using that not_less_Least[of j "\<lambda>j. job_tick lib (incoming w j) \<noteq> None"]
    unfolding n_def by auto
  with r show ?thesis by blast
qed

lemma poll_returns_iff:
  "(\<exists>y. poll_job_status lib self job_id w = Some y) \<longleftrightarrow>
   (\<exists>k. job_tick lib (incoming w k) \<noteq> None)"
proof
  assume "\<exists>y. poll_job_status lib self job_id w = Some y"
  then show "\<exists>k. job_tick lib (incoming w k) \<noteq> None"
    using poll_returns_tick by blast
next
  assume "\<exists>k. job_tick lib (incoming w k) \<noteq> None"
  then obtain k where "job_tick lib (incoming w k) \<noteq> None" by blast
  from first_tick[OF this] obtain n r
    where before: "\<forall>j<n. job_tick lib (incoming w j) = None"
      and at: "job_tick lib (incoming w n) = Some r"
    by blast
  from before have "\<And>j. j < n \<Longrightarrow> job_tick lib (incoming w j) = None" by blast
  from poll_exit[OF this at] show "\<exists>y. poll_job_status lib self job_id w = Some y" by blast
qed

text \<open>What a pass decides from a status report.\<close>

lemma observed_dict:
  assumes "observed r = Some (job, st)"
  obtains jk where "job = JObj jk"
  using assms
  by (cases job) (auto simp: observed_def split: sum.splits)

lemma tick_of_observed:
  assumes "observed r = Some (JObj jk, st)"
  shows "job_tick lib r =
     (if py_eq_int st QUERY_STATUS_COMPLETED then Some (Inr (JObj jk))
      else if py_eq_int st QUERY_STATUS_FAILED then
        Some (Inl (Exception (''Query execution failed: '' @
                py_str (py_repr lib) (dict_get jk ''error'' (JStr ''Unknown error'')))))
      else None)"
  using assms by (auto simp: observed_def job_tick_def split: sum.splits)

lemma tick_pending:
  assumes "pending r"
  shows "job_tick lib r = None"
proof -
  from assms obtain job st where o: "observed r = Some (job, st)"
    and st: "\<not> py_eq_int st QUERY_STATUS_COMPLETED" "\<not> py_eq_int st QUERY_STATUS_FAILED"
    by (auto simp: pending_def split: option.splits)
  from o obtain jk where "job = JObj jk" by (rule observed_dict)
  with o st tick_of_observed[of r jk st lib] show ?thesis by simp
qed

lemma tick_of_report:
  assumes "observed r \<noteq> None"
  shows "job_tick lib r \<noteq> None \<longleftrightarrow> completed r \<or> failed r"
proof -
  from assms obtain job st where o: "observed r = Some (job, st)" by auto
  then obtain jk where "job = JObj jk" by (rule observed_dict)
  with o tick_of_observed[of r jk st lib] show ?thesis
    by (auto simp: completed_def failed_def)
qed


lemma observed_report:
  "observed (status_report (JObj jk)) =
     (case map_of jk ''status'' of None \<Rightarrow> None | Some st \<Rightarrow> Some (JObj jk, st))"
  by (simp add: observed_def status_report_def raise_for_status_def response_json_def
       split: option.splits)

lemma completed_not_failed:
  "py_eq_int st QUERY_STATUS_COMPLETED \<Longrightarrow> \<not> py_eq_int st QUERY_STATUS_FAILED"
  by (cases st) (auto simp: QUERY_STATUS_COMPLETED_def QUERY_STATUS_FAILED_def split: if_splits)

lemma left_at_counts:
  "slept (left_at rq n w) = slept w + n * POLL_INTERVAL"
  "length (sent (left_at rq n w)) = length (sent w) + Suc n"
  by (simp_all add: left_at_def)

section \<open>Claims about the polling loop\<close>

text \<open>
  C3. Whatever the service answers: when the passes before pass \<open>n\<close> (counted from 0)
  all saw a status that is neither completed (3) nor failed (4), and pass \<open>n\<close> sees the
  job object \<open>jk\<close> with status \<open>st\<close>, then
  \<^item> if \<open>st\<close> is completed, the loop returns that job object (with its
    \<open>query_result_id\<close>, as the service sent it) on pass \<open>n\<close>;
  \<^item> if \<open>st\<close> is failed, the loop raises on pass \<open>n\<close> the exception
    \<open>Exception("Query execution failed: " + error)\<close>, where \<open>error\<close> is the job's
    \<open>error\<close> field, or \<open>"Unknown error"\<close> when the job has none;
  \<^item> the loop has then fetched \<open>n + 1\<close> times and slept \<open>n\<close> seconds: none when the
    first pass sees the terminal status.
\<close>

theorem C3_poll_leaves_at_first_terminal_status:
  assumes "\<forall>k<n. pending (incoming w k)"
    and "observed (incoming w n) = Some (JObj jk, st)"
  shows "(py_eq_int st QUERY_STATUS_COMPLETED \<longrightarrow>
            poll_job_status lib self job_id w =
              Some (Inr (JObj jk), left_at (job_request lib self job_id) n w)) \<and>
         (py_eq_int st QUERY_STATUS_FAILED \<longrightarrow>
            poll_job_status lib self job_id w =
              Some (Inl (Exception (''Query execution failed: '' @
                      py_str (py_repr lib) (dict_get jk ''error'' (JStr ''Unknown error'')))),
                    left_at (job_request lib self job_id) n w)) \<and>
         slept (left_at (job_request lib self job_id) n w) = slept w + n \<and>
         length (sent (left_at (job_request lib self job_id) n w)) = length (sent w) + (n + 1)"
proof -
  have before: "\<And>k. k < n \<Longrightarrow> job_tick lib (incoming w k) = None"
    using assms(1) by (simp add: tick_pending)
  note at = tick_of_observed[OF assms(2), of lib]
  have on_completed: "poll_job_status lib self job_id w =
              Some (Inr (JObj jk), left_at (job_request lib self job_id) n w)"
    if "py_eq_int st QUERY_STATUS_COMPLETED"
    using that at by (intro poll_exit before) simp_all
  have on_failed: "poll_job_status lib self job_id w =
              Some (Inl (Exception (''Query execution failed: '' @
                      py_str (py_repr lib) (dict_get jk ''error'' (JStr ''Unknown error'')))),
                    left_at (job_request lib self job_id) n w)"
    if "py_eq_int st QUERY_STATUS_FAILED"
    using that at completed_not_failed[of st] by (intro poll_exit before) auto
  show ?thesis
    using on_completed on_failed by (simp add: left_at_counts POLL_INTERVAL_def)
qed

theorem C3_poll_leaves_at_first_terminal_status_witness:
  "poll_job_status example_library example_client (JStr ''abc'')
     (service (\<lambda>k. status_report (JObj [(''status'', JInt 3), (''query_result_id'', JInt 99)])))
   = Some (Inr (JObj [(''status'', JInt 3), (''query_result_id'', JInt 99)]),
           left_at (job_request example_library example_client (JStr ''abc'')) 0
             (service (\<lambda>k. status_report
                (JObj [(''status'', JInt 3), (''query_result_id'', JInt 99)])))) \<and>
   slept (left_at (job_request example_library example_client (JStr ''abc'')) 0
             (service (\<lambda>k. status_report
                (JObj [(''status'', JInt 3), (''query_result_id'', JInt 99)])))) = 0 \<and>
   poll_job_status example_library example_client (JStr ''abc'')
     (service (\<lambda>k. if k < 2 then status_report (JObj [(''status'', JInt 2)])
                     else status_report (JObj [(''status'', JInt 4), (''error'', JStr ''boom'')])))
   = Some (Inl (Exception ''Query execution failed: boom''),
           left_at (job_request example_library example_client (JStr ''abc'')) 2
             (service (\<lambda>k. if k < 2 then status_report (JObj [(''status'', JInt 2)])
                     else status_report (JObj [(''status'', JInt 4), (''error'', JStr ''boom'')])))) \<and>
   poll_job_status example_library example_client (JStr ''abc'')
     (service (\<lambda>k. status_report (JObj [(''status'', JInt 4)])))
   = Some (Inl (Exception ''Query execution failed: Unknown error''),
           left_at (job_request example_library example_client (JStr ''abc'')) 0
             (service (\<lambda>k. status_report (JObj [(''status'', JInt 4)]))))"
proof -
  let ?fin = "[(''status'', JInt 3), (''query_result_id'', JInt 99)]"
  let ?boom = "[(''status'', JInt 4), (''error'', JStr ''boom'')]"
  let ?fail = "[(''status'', JInt 4)]"
  let ?w1 = "service (\<lambda>k. status_report (JObj ?fin))"
  let ?w2 = "service (\<lambda>k. if k < 2 then status_report (JObj [(''status'', JInt 2)])
                     else status_report (JObj ?boom))"
  let ?w3 = "service (\<lambda>k. status_report (JObj ?fail))"
  have statuses: "py_eq_int (JInt 3) QUERY_STATUS_COMPLETED" "py_eq_int (JInt 4) QUERY_STATUS_FAILED"
    by (simp_all add: QUERY_STATUS_COMPLETED_def QUERY_STATUS_FAILED_def)
  have p1: "\<forall>k<0. pending (incoming ?w1 k)" by simp
  have o1: "observed (incoming ?w1 0) = Some (JObj ?fin, JInt 3)"
    by (simp add: service_def observed_report)
  have p2: "\<forall>k<2. pending (incoming ?w2 k)"
    by (simp add: service_def pending_def observed_report QUERY_STATUS_COMPLETED_def
          QUERY_STATUS_FAILED_def)
  have o2: "observed (incoming ?w2 2) = Some (JObj ?boom, JInt 4)"
    by (simp add: service_def observed_report)
  have p3: "\<forall>k<0. pending (incoming ?w3 k)" by simp
  have o3: "observed (incoming ?w3 0) = Some (JObj ?fail, JInt 4)"
    by (simp add: service_def observed_report)
  from C3_poll_leaves_at_first_terminal_status[OF p1 o1, of example_library example_client "JStr ''abc''"]
       C3_poll_leaves_at_first_terminal_status[OF p2 o2, of example_library example_client "JStr ''abc''"]
       C3_poll_leaves_at_first_terminal_status[OF p3 o3, of example_library example_client "JStr ''abc''"]
       statuses
  show ?thesis
    by (simp add: dict_get_def service_def)
qed

text \<open>
  C4. On a stream of status reports the loop terminates if and only if some report carries
  a terminal status (completed or failed), and it never returns on a stream that carries
  none. There is no bound on the passes: when the first terminal status comes with report
  \<open>n\<close> (counted from 0), for any \<open>n\<close>, the loop leaves after \<open>n + 1\<close> fetches, having
  slept \<open>POLL_INTERVAL = 1\<close> second after each of the \<open>n\<close> fetches before.
\<close>

theorem C4_poll_terminates_iff_terminal_status:
  assumes "\<forall>k. observed (incoming w k) \<noteq> None"
  shows "((\<exists>y. poll_job_status lib self job_id w = Some y) \<longleftrightarrow>
            (\<exists>n. completed (incoming w n) \<or> failed (incoming w n))) \<and>
         ((\<forall>n. \<not> completed (incoming w n) \<and> \<not> failed (incoming w n)) \<longrightarrow>
            poll_job_status lib self job_id w = None) \<and>
         (\<forall>n. (\<forall>k<n. pending (incoming w k)) \<and>
                (completed (incoming w n) \<or> failed (incoming w n)) \<longrightarrow>
              (\<exists>r. poll_job_status lib self job_id w =
                     Some (r, left_at (job_request lib self job_id) n w)) \<and>
              length (sent (left_at (job_request lib self job_id) n w))
                = length (sent w) + (n + 1) \<and>
              slept (left_at (job_request lib self job_id) n w) = slept w + n * 1) \<and>
         POLL_INTERVAL = 1"
proof -
  have tick: "job_tick lib (incoming w k) \<noteq> None \<longleftrightarrow>
              completed (incoming w k) \<or> failed (incoming w k)" for k
    using assms by (intro tick_of_report) simp
  have A: "(\<exists>y. poll_job_status lib self job_id w = Some y) \<longleftrightarrow>
            (\<exists>n. completed (incoming w n) \<or> failed (incoming w n))"
    unfolding poll_returns_iff using tick by simp
  have B: "poll_job_status lib self job_id w = None"
    if "\<forall>n. \<not> completed (incoming w n) \<and> \<not> failed (incoming w n)"
    using that A by (cases "poll_job_status lib self job_id w") auto
  have C: "\<exists>r. poll_job_status lib self job_id w =
                     Some (r, left_at (job_request lib self job_id) n w)"
    if "\<forall>k<n. pending (incoming w k)"
      and "completed (incoming w n) \<or> failed (incoming w n)" for n
  proof -
    have before: "\<And>k. k < n \<Longrightarrow> job_tick lib (incoming w k) = None"
      using that(1) by (simp add: tick_pending)
    from that(2) tick[of n] obtain r where "job_tick lib (incoming w n) = Some r" by auto
    from poll_exit[OF before this] show ?thesis by blast
  qed
  show ?thesis
    using A B C by (simp add: left_at_counts POLL_INTERVAL_def)
qed

theorem C4_poll_terminates_iff_terminal_status_witness:
  "(\<exists>y. poll_job_status example_library example_client (JStr ''abc'')
          (service (\<lambda>k. if k < 2 then status_report (JObj [(''status'', JInt 2)])
                     else status_report (JObj [(''status'', JInt 3)]))) = Some y) \<and>
   poll_job_status example_library example_client (JStr ''abc'')
          (service (\<lambda>k. status_report (JObj [(''status'', JInt 2)]))) = None"
proof -
  let ?w1 = "service (\<lambda>k. if k < 2 then status_report (JObj [(''status'', JInt 2)])
                     else status_report (JObj [(''status'', JInt 3)]))"
  let ?w2 = "service (\<lambda>k. status_report (JObj [(''status'', JInt 2)]))"
  have r1: "\<forall>k. observed (incoming ?w1 k) \<noteq> None"
    by (simp add: service_def observed_report)
  have r2: "\<forall>k. observed (incoming ?w2 k) \<noteq> None"
    by (simp add: service_def observed_report)
  have t1: "completed (incoming ?w1 2)"
    by (simp add: service_def completed_def observed_report QUERY_STATUS_COMPLETED_def)
  have t2: "\<forall>n. \<not> completed (incoming ?w2 n) \<and> \<not> failed (incoming ?w2 n)"
    by (simp add: service_def completed_def failed_def observed_report
          QUERY_STATUS_COMPLETED_def QUERY_STATUS_FAILED_def)
  from C4_poll_terminates_iff_terminal_status[OF r1, of example_library example_client "JStr ''abc''"] t1
  have "\<exists>y. poll_job_status example_library example_client (JStr ''abc'') ?w1 = Some y"
    by blast
  moreover
  from C4_poll_terminates_iff_terminal_status[OF r2, of example_library example_client "JStr ''abc''"] t2
  have "poll_job_status example_library example_client (JStr ''abc'') ?w2 = None"
    by blast
  ultimately show ?thesis by simp
qed


section \<open>execute_query, stage by stage\<close>

lemma answered_one:
  "w\<lparr>incoming := (\<lambda>n. incoming w (Suc n)), sent := sent w @ [rq]\<rparr> = answered [rq] w"
  by (simp add: answered_def)

lemma answered_two:
  "answered [rq2] (answered [rq1] w) = answered [rq1, rq2] w"
  by (simp add: answered_def)

lemma execute_query_create_fails:
  assumes "raise_for_status (incoming w 0) = Inl e"
  shows "execute_query lib self q ds w = Some (Inl e, answered [create_request lib self q ds] w)"
  using assms
  by (simp add: execute_query_def requests_post_def http_request_def
        create_request_def answered_def Let_def)

lemma execute_query_create_no_json:
  assumes "raise_for_status (incoming w 0) = Inr u" and "response_json (incoming w 0) = Inl e"
  shows "execute_query lib self q ds w = Some (Inl e, answered [create_request lib self q ds] w)"
  using assms
  by (simp add: execute_query_def requests_post_def http_request_def
        create_request_def answered_def Let_def)

lemma execute_query_create_no_id:
  assumes "raise_for_status (incoming w 0) = Inr u" and "response_json (incoming w 0) = Inr created"
    and "py_subscript created ''id'' = Inl e"
  shows "execute_query lib self q ds w = Some (Inl e, answered [create_request lib self q ds] w)"
  using assms
  by (simp add: execute_query_def requests_post_def http_request_def
        create_request_def answered_def Let_def)

lemma execute_query_trigger_fails:
  assumes "raise_for_status (incoming w 0) = Inr u" and "response_json (incoming w 0) = Inr created"
    and "py_subscript created ''id'' = Inr query_id"
    and "raise_for_status (incoming w 1) = Inl e"
  shows "execute_query lib self q ds w =
         Some (Inl e, answered [create_request lib self q ds, trigger_request lib self query_id] w)"
  using assms
  by (simp add: execute_query_def requests_post_def http_request_def
        create_request_def trigger_request_def answered_def Let_def)

lemma execute_query_trigger_no_json:
  assumes "raise_for_status (incoming w 0) = Inr u" and "response_json (incoming w 0) = Inr created"
    and "py_subscript created ''id'' = Inr query_id"
    and "raise_for_status (incoming w 1) = Inr u'" and "response_json (incoming w 1) = Inl e"
  shows "execute_query lib self q ds w =
         Some (Inl e, answered [create_request lib self q ds, trigger_request lib self query_id] w)"
  using assms
  by (simp add: execute_query_def requests_post_def http_request_def
        create_request_def trigger_request_def answered_def Let_def)

lemma execute_query_in_fails:
  assumes "raise_for_status (incoming w 0) = Inr u" and "response_json (incoming w 0) = Inr created"
    and "py_subscript created ''id'' = Inr query_id"
    and "raise_for_status (incoming w 1) = Inr u'" and "response_json (incoming w 1) = Inr job_data"
    and "py_in ''query_result'' job_data = Inl e"
  shows "execute_query lib self q ds w =
         Some (Inl e, answered [create_request lib self q ds, trigger_request lib self query_id] w)"
  using assms
  by (simp add: execute_query_def requests_post_def http_request_def
        create_request_def trigger_request_def answered_def Let_def)

lemma execute_query_immediate:
  assumes "raise_for_status (incoming w 0) = Inr u" and "response_json (incoming w 0) = Inr created"
    and "py_subscript created ''id'' = Inr query_id"
    and "raise_for_status (incoming w 1) = Inr u'" and "response_json (incoming w 1) = Inr job_data"
    and "py_in ''query_result'' job_data = Inr True"
  shows "execute_query lib self q ds w =
         Some (format_query_result job_data q,
               answered [create_request lib self q ds, trigger_request lib self query_id] w)"
  using assms
  by (simp add: execute_query_def requests_post_def http_request_def
        create_request_def trigger_request_def answered_def Let_def)

lemma execute_query_neither:
  assumes "raise_for_status (incoming w 0) = Inr u" and "response_json (incoming w 0) = Inr created"
    and "py_subscript created ''id'' = Inr query_id"
    and "raise_for_status (incoming w 1) = Inr u'" and "response_json (incoming w 1) = Inr job_data"
    and "py_in ''query_result'' job_data = Inr False"
    and "py_in ''job'' job_data = Inr False"
  shows "execute_query lib self q ds w =
         Some (case py_keys job_data of Inl e \<Rightarrow> Inl e
               | Inr ks \<Rightarrow> Inl (Exception (''Invalid response format. Keys: '' @ py_repr lib ks)),
               answered [create_request lib self q ds, trigger_request lib self query_id] w)"
  using assms
  by (cases "py_keys job_data")
     (simp_all add: execute_query_def requests_post_def http_request_def
        create_request_def trigger_request_def answered_def Let_def)

lemma execute_query_job_shape:
  assumes "raise_for_status (incoming w 0) = Inr u" and "response_json (incoming w 0) = Inr created"
    and "py_subscript created ''id'' = Inr query_id"
    and "raise_for_status (incoming w 1) = Inr u'" and "response_json (incoming w 1) = Inr job_data"
    and "py_in ''query_result'' job_data = Inr False"
    and "py_in ''job'' job_data = Inr True"
  shows "execute_query lib self q ds w =
     (case py_subscript job_data ''job'' of
        Inl e \<Rightarrow> Some (Inl e, answered [create_request lib self q ds, trigger_request lib self query_id] w)
      | Inr job \<Rightarrow>
        (case py_subscript job ''id'' of
           Inl e \<Rightarrow> Some (Inl e, answered [create_request lib self q ds, trigger_request lib self query_id] w)
         | Inr job_id \<Rightarrow>
             fetch_result lib self q
               (poll_job_status lib self job_id
                  (answered [create_request lib self q ds, trigger_request lib self query_id] w))))"
proof (cases "py_subscript job_data ''job''")
  case (Inl e)
  with assms show ?thesis
    by (simp add: execute_query_def requests_post_def http_request_def
        create_request_def trigger_request_def answered_def Let_def)
next
  case (Inr job)
  note job = this
  show ?thesis
  proof (cases "py_subscript job ''id''")
    case (Inl e)
    with assms job show ?thesis
      by (simp add: execute_query_def requests_post_def http_request_def
        create_request_def trigger_request_def answered_def Let_def)
  next
    case (Inr job_id)
    with assms job show ?thesis
      by (simp add: execute_query_def requests_post_def http_request_def
        create_request_def trigger_request_def answered_def Let_def fetch_result_def)
  qed
qed


lemma execute_query_in_job_fails:
  assumes "raise_for_status (incoming w 0) = Inr u" and "response_json (incoming w 0) = Inr created"
    and "py_subscript created ''id'' = Inr query_id"
    and "raise_for_status (incoming w 1) = Inr u'" and "response_json (incoming w 1) = Inr job_data"
    and "py_in ''query_result'' job_data = Inr False"
    and "py_in ''job'' job_data = Inl e"
  shows "execute_query lib self q ds w =
         Some (Inl e, answered [create_request lib self q ds, trigger_request lib self query_id] w)"
  using assms
  by (simp add: execute_query_def requests_post_def http_request_def
        create_request_def trigger_request_def answered_def Let_def)

section \<open>After the polling loop\<close>

lemma fetch_result_None: "fetch_result lib self q None = None"
  by (simp add: fetch_result_def)

lemma fetch_result_raised: "fetch_result lib self q (Some (Inl e, w3)) = Some (Inl e, w3)"
  by (simp add: fetch_result_def)

lemma fetch_result_no_id:
  assumes "py_subscript job_result ''query_result_id'' = Inl e"
  shows "fetch_result lib self q (Some (Inr job_result, w3)) = Some (Inl e, w3)"
  using assms by (simp add: fetch_result_def)

lemma fetch_result_http_fails:
  assumes "py_subscript job_result ''query_result_id'' = Inr result_id"
    and "raise_for_status (incoming w3 0) = Inl e"
  shows "fetch_result lib self q (Some (Inr job_result, w3)) =
         Some (Inl e, answered [result_request lib self result_id] w3)"
  using assms
  by (simp add: fetch_result_def requests_get_def http_request_def result_request_def answered_def)

lemma fetch_result_no_json:
  assumes "py_subscript job_result ''query_result_id'' = Inr result_id"
    and "raise_for_status (incoming w3 0) = Inr u" and "response_json (incoming w3 0) = Inl e"
  shows "fetch_result lib self q (Some (Inr job_result, w3)) =
         Some (Inl e, answered [result_request lib self result_id] w3)"
  using assms
  by (simp add: fetch_result_def requests_get_def http_request_def result_request_def answered_def)

lemma fetch_result_formats:
  assumes "py_subscript job_result ''query_result_id'' = Inr result_id"
    and "raise_for_status (incoming w3 0) = Inr u" and "response_json (incoming w3 0) = Inr result_data"
  shows "fetch_result lib self q (Some (Inr job_result, w3)) =
         Some (format_query_result result_data q, answered [result_request lib self result_id] w3)"
  using assms
  by (simp add: fetch_result_def requests_get_def http_request_def result_request_def answered_def)

lemma fetch_result_returns:
  assumes "fetch_result lib self q waited = Some (Inr v, w')"
  shows "\<exists>result_data. format_query_result result_data q = Inr v"
proof (cases waited)
  case None
  with assms show ?thesis by (simp add: fetch_result_None)
next
  case (Some rw)
  obtain r w3 where rw: "rw = (r, w3)" by (cases rw)
  show ?thesis
  proof (cases r)
    case (Inl e)
    with assms Some rw show ?thesis by (simp add: fetch_result_raised)
  next
    case (Inr job_result)
    note shape = Some rw Inr
    show ?thesis
    proof (cases "py_subscript job_result ''query_result_id''")
      case (Inl e)
      from fetch_result_no_id[OF this] assms shape show ?thesis by simp
    next
      case (Inr result_id)
      note rid = this
      show ?thesis
      proof (cases "raise_for_status (incoming w3 0)")
        case (Inl e)
        from fetch_result_http_fails[OF rid this] assms shape show ?thesis by simp
      next
        case (Inr u)
        note ok = this
        show ?thesis
        proof (cases "response_json (incoming w3 0)")
          case (Inl e)
          from fetch_result_no_json[OF rid ok this] assms shape show ?thesis by simp
        next
          case (Inr result_data)
          from fetch_result_formats[OF rid ok this, of lib self q] assms shape
          have "format_query_result result_data q = Inr v" by simp
          then show ?thesis by blast
        qed
      qed
    qed
  qed
qed

text \<open>The three ways \<open>execute_query\<close> ends: an exception before the polling loop, the
  normalizer on the trigger response, or the polling loop and what follows it.\<close>

lemma execute_query_ends:
  "(\<exists>e w'. execute_query lib self q ds w = Some (Inl e, w')) \<or>
   (\<exists>job_data w'. execute_query lib self q ds w = Some (format_query_result job_data q, w')) \<or>
   (\<exists>job_id w2. execute_query lib self q ds w =
        fetch_result lib self q (poll_job_status lib self job_id w2))"
proof (cases "raise_for_status (incoming w 0)")
  case (Inl e)
  from execute_query_create_fails[OF this] show ?thesis by blast
next
  case (Inr u)
  note c1 = this
  show ?thesis
  proof (cases "response_json (incoming w 0)")
    case (Inl e)
    from execute_query_create_no_json[OF c1 this] show ?thesis by blast
  next
    case (Inr created)
    note c2 = this
    show ?thesis
    proof (cases "py_subscript created ''id''")
      case (Inl e)
      from execute_query_create_no_id[OF c1 c2 this] show ?thesis by blast
    next
      case (Inr query_id)
      note c3 = this
      show ?thesis
      proof (cases "raise_for_status (incoming w 1)")
        case (Inl e)
        from execute_query_trigger_fails[OF c1 c2 c3 this] show ?thesis by blast
      next
        case (Inr u')
        note t1 = this
        show ?thesis
        proof (cases "response_json (incoming w 1)")
          case (Inl e)
          from execute_query_trigger_no_json[OF c1 c2 c3 t1 this] show ?thesis by blast
        next
          case (Inr job_data)
          note t2 = this
          show ?thesis
          proof (cases "py_in ''query_result'' job_data")
            case (Inl e)
            from execute_query_in_fails[OF c1 c2 c3 t1 t2 this] show ?thesis by blast
          next
            case (Inr immediate)
            show ?thesis
            proof (cases immediate)
              case True
              with Inr have "py_in ''query_result'' job_data = Inr True" by simp
              from execute_query_immediate[OF c1 c2 c3 t1 t2 this] show ?thesis by blast
            next
              case False
              with Inr have i: "py_in ''query_result'' job_data = Inr False" by simp
              show ?thesis
              proof (cases "py_in ''job'' job_data")
                case (Inl e)
                from execute_query_in_job_fails[OF c1 c2 c3 t1 t2 i this] show ?thesis by blast
              next
                case (Inr queued)
                show ?thesis
                proof (cases queued)
                  case False
                  with Inr have "py_in ''job'' job_data = Inr False" by simp
                  from execute_query_neither[OF c1 c2 c3 t1 t2 i this, of lib self q ds]
                  show ?thesis by (cases "py_keys job_data") auto
                next
                  case True
                  with Inr have "py_in ''job'' job_data = Inr True" by simp
                  from execute_query_job_shape[OF c1 c2 c3 t1 t2 i this, of lib self q ds]
                  show ?thesis
                    by (cases "py_subscript job_data ''job''";
                        cases "py_subscript (projr (py_subscript job_data ''job'')) ''id''") auto
                qed
              qed
            qed
          qed
        qed
      qed
    qed
  qed
qed

lemma execute_query_returns:
  assumes "execute_query lib self q ds w = Some (Inr v, w')"
  shows "\<exists>result_data. format_query_result result_data q = Inr v"
proof -
  consider (raised) e w1 where "execute_query lib self q ds w = Some (Inl e, w1)"
    | (immediate) job_data w1 where
        "execute_query lib self q ds w = Some (format_query_result job_data q, w1)"
    | (waited) job_id w2 where
        "execute_query lib self q ds w =
           fetch_result lib self q (poll_job_status lib self job_id w2)"
    using execute_query_ends[of lib self q ds w] by blast
  then show ?thesis
  proof cases
    case raised
    with assms show ?thesis by simp
  next
    case immediate
    with assms have "format_query_result job_data q = Inr v" by simp
    then show ?thesis by blast
  next
    case waited
    with assms have "fetch_result lib self q (poll_job_status lib self job_id w2) = Some (Inr v, w')"
      by simp
    then show ?thesis by (rule fetch_result_returns)
  qed
qed

lemma json_response_ok:
  "raise_for_status (json_response body) = Inr ()"
  "response_json (json_response body) = Inr body"
  by (simp_all add: json_response_def raise_for_status_def response_json_def)

lemma format_select_1:
  "format_query_result
     (JObj [(''query_result'', JObj [(''id'', JInt 42),
        (''data'', JObj [(''columns'', JList []), (''rows'', JList [JList [JInt 1]])])])])
     ''SELECT 1''
   = Inr (normalized (JInt 42) (JStr ''SELECT 1'') (JList []) (JList [JList [JInt 1]])
            JNull (JInt 0) JNull)"
  by (simp add: format_query_result_def normalized_def dict_get_def)

section \<open>Claims about execute_query\<close>

text \<open>
  C5. When the query is created (a success response whose body has an \<open>id\<close>) and the
  trigger response is a success with the body
  \<open>{"query_result": {"id": 42, "data": {"columns": [], "rows": [[1]]}}}\<close>, then
  \<open>execute_query("SELECT 1")\<close> returns the normalized result with id 42 and rows
  \<open>[[1]]\<close>, having sent the two POST requests only: no GET (so no job-status fetch)
  is sent and nothing is slept.
\<close>

theorem C5_immediate_result_without_polling:
  assumes "raise_for_status (incoming w 0) = Inr ()"
    and "response_json (incoming w 0) = Inr created"
    and "py_subscript created ''id'' = Inr query_id"
    and "raise_for_status (incoming w 1) = Inr ()"
    and "response_json (incoming w 1) =
           Inr (JObj [(''query_result'', JObj [(''id'', JInt 42),
             (''data'', JObj [(''columns'', JList []), (''rows'', JList [JList [JInt 1]])])])])"
  shows "execute_query lib self ''SELECT 1'' ds w =
           Some (Inr (normalized (JInt 42) (JStr ''SELECT 1'') (JList [])
                        (JList [JList [JInt 1]]) JNull (JInt 0) JNull),
                 answered [create_request lib self ''SELECT 1'' ds,
                           trigger_request lib self query_id] w) \<and>
         slept (answered [create_request lib self ''SELECT 1'' ds,
                          trigger_request lib self query_id] w) = slept w \<and>
         filter (\<lambda>rq. req_method rq = ''GET'')
           (sent (answered [create_request lib self ''SELECT 1'' ds,
                            trigger_request lib self query_id] w))
           = filter (\<lambda>rq. req_method rq = ''GET'') (sent w)"
proof -
  let ?body = "JObj [(''query_result'', JObj [(''id'', JInt 42),
             (''data'', JObj [(''columns'', JList []), (''rows'', JList [JList [JInt 1]])])])]"
  have "py_in ''query_result'' ?body = Inr True" by simp
  from execute_query_immediate[OF assms this, of lib self "''SELECT 1''" ds]
  have "execute_query lib self ''SELECT 1'' ds w =
           Some (Inr (normalized (JInt 42) (JStr ''SELECT 1'') (JList [])
                        (JList [JList [JInt 1]]) JNull (JInt 0) JNull),
                 answered [create_request lib self ''SELECT 1'' ds,
                           trigger_request lib self query_id] w)"
    by (simp only: format_select_1)
  moreover have "slept (answered [create_request lib self ''SELECT 1'' ds,
                          trigger_request lib self query_id] w) = slept w"
    by (simp add: answered_def)
  moreover have "filter (\<lambda>rq. req_method rq = ''GET'')
           (sent (answered [create_request lib self ''SELECT 1'' ds,
                            trigger_request lib self query_id] w))
           = filter (\<lambda>rq. req_method rq = ''GET'') (sent w)"
    by (simp add: answered_def create_request_def trigger_request_def)
  ultimately show ?thesis by blast
qed

theorem C5_immediate_result_without_polling_witness:
  "execute_query example_library example_client ''SELECT 1'' None
     (service (\<lambda>k. if k = 0 then json_response (JObj [(''id'', JInt 7)])
        else json_response
          (JObj [(''query_result'', JObj [(''id'', JInt 42),
             (''data'', JObj [(''columns'', JList []), (''rows'', JList [JList [JInt 1]])])])])))
   = Some (Inr (normalized (JInt 42) (JStr ''SELECT 1'') (JList [])
                  (JList [JList [JInt 1]]) JNull (JInt 0) JNull),
           answered [create_request example_library example_client ''SELECT 1'' None,
                     trigger_request example_library example_client (JInt 7)]
             (service (\<lambda>k. if k = 0 then json_response (JObj [(''id'', JInt 7)])
                else json_response
                  (JObj [(''query_result'', JObj [(''id'', JInt 42),
                     (''data'', JObj [(''columns'', JList []),
                                      (''rows'', JList [JList [JInt 1]])])])]))))"
proof -
  let ?w = "service (\<lambda>k. if k = 0 then json_response (JObj [(''id'', JInt 7)])
        else json_response
          (JObj [(''query_result'', JObj [(''id'', JInt 42),
             (''data'', JObj [(''columns'', JList []), (''rows'', JList [JList [JInt 1]])])])]))"
  have a: "raise_for_status (incoming ?w 0) = Inr ()"
    and b: "response_json (incoming ?w 0) = Inr (JObj [(''id'', JInt 7)])"
    and c: "py_subscript (JObj [(''id'', JInt 7)]) ''id'' = Inr (JInt 7)"
    and d: "raise_for_status (incoming ?w 1) = Inr ()"
    and e: "response_json (incoming ?w 1) =
           Inr (JObj [(''query_result'', JObj [(''id'', JInt 42),
             (''data'', JObj [(''columns'', JList []), (''rows'', JList [JList [JInt 1]])])])])"
    by (simp_all add: service_def json_response_ok)
  from C5_immediate_result_without_polling[OF a b c d e, of example_library example_client None]
  show ?thesis by blast
qed

lemma ask_question_result_normalized:
  "ask_question_result lib sql (normalized rid qv cols rows ds rt ra) =
     new_QueryResponse lib (JStr ''Here are the results from your query'') (JStr sql)
       (JObj [(''id'', rid), (''query'', qv),
              (''data'', JObj [(''columns'', cols), (''rows'', rows)]),
              (''data_source_id'', ds), (''runtime'', rt), (''retrieved_at'', ra)])"
  by (simp add: ask_question_result_def normalized_def)

text \<open>
  C10. Every value \<open>execute_query\<close> returns is a dict with the single key
  \<open>query_result\<close>, whose value is a dict: the test
  \<open>not isinstance(result, dict) or "query_result" not in result\<close> of the \<open>/ask\<close>
  handler is false on it, so the handler never raises
  \<open>ValueError("Invalid response format from Redash")\<close> after a successful call and goes on
  to build the \<open>QueryResponse\<close>.
\<close>

theorem C10_returned_value_has_query_result:
  assumes "execute_query lib self q ds w = Some (Inr v, w')"
  shows "\<exists>inner. v = JObj [(''query_result'', JObj inner)] \<and>
           py_in ''query_result'' v = Inr True \<and>
           ask_question_result lib q v =
             new_QueryResponse lib (JStr ''Here are the results from your query'') (JStr q)
               (JObj inner) \<and>
           (q = chosen_sql request \<and> ds = None \<longrightarrow>
              ask_question lib self request w =
                Some (case new_QueryResponse lib (JStr ''Here are the results from your query'')
                             (JStr q) (JObj inner) of
                        Inl e \<Rightarrow> Inl (HTTPException HTTP_500_INTERNAL_SERVER_ERROR
                                        (''Query execution failed: '' @ exc_str lib e))
                      | Inr resp \<Rightarrow> Inr resp, w'))"
proof -
  from execute_query_returns[OF assms] obtain result_data
    where "format_query_result result_data q = Inr v" by blast
  then obtain rid qv cols rows dsv rt ra
    where v: "v = normalized rid qv cols rows dsv rt ra"
    by (rule format_returns)
  let ?inner = "[(''id'', rid), (''query'', qv),
              (''data'', JObj [(''columns'', cols), (''rows'', rows)]),
              (''data_source_id'', dsv), (''runtime'', rt), (''retrieved_at'', ra)]"
  have shape: "v = JObj [(''query_result'', JObj ?inner)]"
    by (simp add: v normalized_def)
  have present: "py_in ''query_result'' v = Inr True"
    by (simp add: shape)
  have handled: "ask_question_result lib q v =
             new_QueryResponse lib (JStr ''Here are the results from your query'') (JStr q)
               (JObj ?inner)"
    unfolding v by (rule ask_question_result_normalized)
  have handler: "ask_question lib self request w =
                Some (case new_QueryResponse lib (JStr ''Here are the results from your query'')
                             (JStr q) (JObj ?inner) of
                        Inl e \<Rightarrow> Inl (HTTPException HTTP_500_INTERNAL_SERVER_ERROR
                                        (''Query execution failed: '' @ exc_str lib e))
                      | Inr resp \<Rightarrow> Inr resp, w')"
    if "q = chosen_sql request" "ds = None"
    using assms that handled
    by (cases "new_QueryResponse lib (JStr ''Here are the results from your query'')
                             (JStr q) (JObj ?inner)")
       (simp_all add: ask_question_def)
  from shape present handled handler show ?thesis by blast
qed


theorem C10_returned_value_has_query_result_witness:
  "execute_query example_library example_client ''SELECT 1'' None
     (service (\<lambda>k. if k = 0 then json_response (JObj [(''id'', JInt 7)])
        else json_response (JObj [(''query_result'', JObj [(''id'', JInt 42)])])))
   = Some (Inr (normalized (JInt 42) (JStr ''SELECT 1'') (JList []) (JList [])
                  JNull (JInt 0) JNull),
           answered [create_request example_library example_client ''SELECT 1'' None,
                     trigger_request example_library example_client (JInt 7)]
             (service (\<lambda>k. if k = 0 then json_response (JObj [(''id'', JInt 7)])
                else json_response (JObj [(''query_result'', JObj [(''id'', JInt 42)])])))) \<and>
   py_in ''query_result''
     (normalized (JInt 42) (JStr ''SELECT 1'') (JList []) (JList []) JNull (JInt 0) JNull)
   = Inr True"
proof -
  let ?w = "service (\<lambda>k. if k = 0 then json_response (JObj [(''id'', JInt 7)])
        else json_response (JObj [(''query_result'', JObj [(''id'', JInt 42)])]))"
  let ?body = "JObj [(''query_result'', JObj [(''id'', JInt 42)])]"
  have a: "raise_for_status (incoming ?w 0) = Inr ()"
    and b: "response_json (incoming ?w 0) = Inr (JObj [(''id'', JInt 7)])"
    and c: "py_subscript (JObj [(''id'', JInt 7)]) ''id'' = Inr (JInt 7)"
    and d: "raise_for_status (incoming ?w 1) = Inr ()"
    and e: "response_json (incoming ?w 1) = Inr ?body"
    and f: "py_in ''query_result'' ?body = Inr True"
    by (simp_all add: service_def json_response_ok)
  have g: "format_query_result ?body ''SELECT 1'' =
    Inr (normalized (JInt 42) (JStr ''SELECT 1'') (JList []) (JList []) JNull (JInt 0) JNull)"
    by (simp add: format_query_result_def normalized_def dict_get_def)
  from execute_query_immediate[OF a b c d e f, of example_library example_client "''SELECT 1''" None]
  have run: "execute_query example_library example_client ''SELECT 1'' None ?w
   = Some (Inr (normalized (JInt 42) (JStr ''SELECT 1'') (JList []) (JList [])
                  JNull (JInt 0) JNull),
           answered [create_request example_library example_client ''SELECT 1'' None,
                     trigger_request example_library example_client (JInt 7)] ?w)"
    by (simp only: g)
  from C10_returned_value_has_query_result[OF run] run show ?thesis by blast
qed

section \<open>HTTP failures on the way\<close>

lemma raise_for_status_error:
  "error_status r \<Longrightarrow> raise_for_status r = Inl (HTTPError (status_code r))"
  by (simp add: error_status_def raise_for_status_def)

lemma tick_error_status:
  "error_status r \<Longrightarrow> job_tick lib r = Some (Inl (HTTPError (status_code r)))"
  by (simp add: job_tick_def raise_for_status_error)

lemma incoming_answered: "incoming (answered rqs w) k = incoming w (k + length rqs)"
  by (simp add: answered_def)

lemma incoming_left_at: "incoming (left_at rq n w) k = incoming w (k + Suc n)"
  by (simp add: left_at_def)

lemma py_in_dict: "py_in k (JObj kvs) = Inr (map_of kvs k \<noteq> None)"
  by simp

text \<open>The job path of \<open>execute_query\<close>, with the trigger response spelled out.\<close>

lemma execute_query_queued:
  assumes "raise_for_status (incoming w 0) = Inr ()"
    and "response_json (incoming w 0) = Inr created"
    and "py_subscript created ''id'' = Inr query_id"
    and "raise_for_status (incoming w 1) = Inr ()"
    and "response_json (incoming w 1) = Inr (JObj tk)"
    and "map_of tk ''query_result'' = None"
    and "map_of tk ''job'' = Some job"
    and "py_subscript job ''id'' = Inr job_id"
  shows "execute_query lib self q ds w =
         fetch_result lib self q
           (poll_job_status lib self job_id
              (answered [create_request lib self q ds, trigger_request lib self query_id] w))"
proof -
  have i: "py_in ''query_result'' (JObj tk) = Inr False"
    and j: "py_in ''job'' (JObj tk) = Inr True"
    using assms(6,7) by simp_all
  from execute_query_job_shape[OF assms(1-5) i j, of lib self q ds] assms(7,8)
  show ?thesis by simp
qed


lemma py_keys_not_dict:
  "\<forall>tk. body \<noteq> JObj tk \<Longrightarrow> py_keys body = Inl (AttributeError (type_name body))"
  by (cases body) simp_all

lemma raise_for_status_passes:
  "\<not> error_status r \<Longrightarrow> raise_for_status r = Inr ()"
  by (simp add: error_status_def raise_for_status_def)

text \<open>
  C7 (as the code has it). The claim says that any non-success status of an HTTP step
  makes \<open>execute_query\<close> fail with the UpstreamError, and that a trigger response with
  neither key makes it fail with the ProtocolError. \<open>raise_for_status()\<close> raises on
  the codes 400 to 599 only. A 304 without a body on the query creation passes it, and the
  call fails in \<open>response.json()\<close> with a \<open>JSONDecodeError\<close>; with the status 300
  and JSON bodies on both POSTs the call does not fail at all and returns a result. And
  the trigger body \<open>[]\<close>, which has neither key, ends the call in the
  \<open>AttributeError\<close> of \<open>job_data.keys()\<close>, raised while the message of the
  ProtocolError is built.
\<close>

theorem C7_other_statuses_and_bodies:
  "execute_query example_library example_client ''SELECT 1'' None
     (service (\<lambda>k. \<lparr>status_code = 304, content = None\<rparr>))
   = Some (Inl JSONDecodeError,
           answered [create_request example_library example_client ''SELECT 1'' None]
             (service (\<lambda>k. \<lparr>status_code = 304, content = None\<rparr>))) \<and>
   execute_query example_library example_client ''SELECT 1'' None
     (service (\<lambda>k. if k = 0
        then \<lparr>status_code = 300, content = Some (JObj [(''id'', JInt 7)])\<rparr>
        else \<lparr>status_code = 300,
              content = Some (JObj [(''query_result'', JObj [(''id'', JInt 42)])])\<rparr>))
   = Some (Inr (normalized (JInt 42) (JStr ''SELECT 1'') (JList []) (JList [])
                  JNull (JInt 0) JNull),
           answered [create_request example_library example_client ''SELECT 1'' None,
                     trigger_request example_library example_client (JInt 7)]
             (service (\<lambda>k. if k = 0
                then \<lparr>status_code = 300, content = Some (JObj [(''id'', JInt 7)])\<rparr>
                else \<lparr>status_code = 300,
                      content = Some (JObj [(''query_result'', JObj [(''id'', JInt 42)])])\<rparr>))) \<and>
   execute_query example_library example_client ''SELECT 1'' None
     (service (\<lambda>k. if k = 0 then json_response (JObj [(''id'', JInt 7)])
                     else json_response (JList [])))
   = Some (Inl (AttributeError ''list''),
           answered [create_request example_library example_client ''SELECT 1'' None,
                     trigger_request example_library example_client (JInt 7)]
             (service (\<lambda>k. if k = 0 then json_response (JObj [(''id'', JInt 7)])
                     else json_response (JList []))))"
proof -
  let ?L = example_library and ?C = example_client and ?q = "''SELECT 1''"
  let ?wa = "service (\<lambda>k. \<lparr>status_code = 304, content = None\<rparr>)"
  let ?wb = "service (\<lambda>k. if k = 0
        then \<lparr>status_code = 300, content = Some (JObj [(''id'', JInt 7)])\<rparr>
        else \<lparr>status_code = 300,
              content = Some (JObj [(''query_result'', JObj [(''id'', JInt 42)])])\<rparr>)"
  let ?wc = "service (\<lambda>k. if k = 0 then json_response (JObj [(''id'', JInt 7)])
                     else json_response (JList []))"
  let ?body = "JObj [(''query_result'', JObj [(''id'', JInt 42)])]"
  have "raise_for_status (incoming ?wa 0) = Inr ()"
    and "response_json (incoming ?wa 0) = Inl JSONDecodeError"
    by (simp_all add: service_def raise_for_status_def response_json_def)
  from execute_query_create_no_json[OF this, of ?L ?C ?q None]
  have a: "execute_query ?L ?C ?q None ?wa
     = Some (Inl JSONDecodeError, answered [create_request ?L ?C ?q None] ?wa)" .
  have fmt: "format_query_result ?body ?q =
    Inr (normalized (JInt 42) (JStr ''SELECT 1'') (JList []) (JList []) JNull (JInt 0) JNull)"
    by (simp add: format_query_result_def normalized_def dict_get_def)
  have "raise_for_status (incoming ?wb 0) = Inr ()"
    and "response_json (incoming ?wb 0) = Inr (JObj [(''id'', JInt 7)])"
    and "py_subscript (JObj [(''id'', JInt 7)]) ''id'' = Inr (JInt 7)"
    and "raise_for_status (incoming ?wb 1) = Inr ()"
    and "response_json (incoming ?wb 1) = Inr ?body"
    and "py_in ''query_result'' ?body = Inr True"
    by (simp_all add: service_def raise_for_status_def response_json_def)
  from execute_query_immediate[OF this, of ?L ?C ?q None]
  have b: "execute_query ?L ?C ?q None ?wb
     = Some (Inr (normalized (JInt 42) (JStr ''SELECT 1'') (JList []) (JList [])
                    JNull (JInt 0) JNull),
             answered [create_request ?L ?C ?q None, trigger_request ?L ?C (JInt 7)] ?wb)"
    by (simp only: fmt)
  have "raise_for_status (incoming ?wc 0) = Inr ()"
    and "response_json (incoming ?wc 0) = Inr (JObj [(''id'', JInt 7)])"
    and "py_subscript (JObj [(''id'', JInt 7)]) ''id'' = Inr (JInt 7)"
    and "raise_for_status (incoming ?wc 1) = Inr ()"
    and "response_json (incoming ?wc 1) = Inr (JList [])"
    and "py_in ''query_result'' (JList []) = Inr False"
    and "py_in ''job'' (JList []) = Inr False"
    by (simp_all add: service_def json_response_ok)
  from execute_query_neither[OF this, of ?L ?C ?q None]
  have c: "execute_query ?L ?C ?q None ?wc
     = Some (Inl (AttributeError ''list''),
             answered [create_request ?L ?C ?q None, trigger_request ?L ?C (JInt 7)] ?wc)"
    by simp
  from a b c show ?thesis by (intro conjI)
qed

text \<open>
  C7, amended. \<open>execute_query\<close> fails with the \<open>HTTPError\<close> of
  \<open>raise_for_status()\<close> (the UpstreamError) as soon as one of its HTTP steps is answered
  with an error status, a code from 400 to 599: the query creation; the trigger, once the
  query is created; the job poll number \<open>n\<close>, once the trigger has returned a job handle
  and the polls before were pending; the result fetch, once the job has completed with a
  result identifier. Every other status passes \<open>raise_for_status()\<close>. When the trigger
  response is a dict with neither \<open>query_result\<close> nor \<open>job\<close>, it fails with
  \<open>Exception("Invalid response format. Keys: ...")\<close> (the ProtocolError), which is no
  \<open>HTTPError\<close>; when it is a list or a str containing neither, it fails with the
  \<open>AttributeError\<close> of \<open>.keys()\<close>.
\<close>

theorem C7_execute_query_failures:
  "(error_status (incoming w 0) \<longrightarrow>
      execute_query lib self q ds w =
        Some (Inl (HTTPError (status_code (incoming w 0))),
              answered [create_request lib self q ds] w)) \<and>
   (raise_for_status (incoming w 0) = Inr () \<and> response_json (incoming w 0) = Inr created \<and>
    py_subscript created ''id'' = Inr query_id \<longrightarrow>
      (error_status (incoming w 1) \<longrightarrow>
         execute_query lib self q ds w =
           Some (Inl (HTTPError (status_code (incoming w 1))),
                 answered [create_request lib self q ds, trigger_request lib self query_id] w)) \<and>
      (raise_for_status (incoming w 1) = Inr () \<and> response_json (incoming w 1) = Inr (JObj tk) \<and>
       map_of tk ''query_result'' = None \<and> map_of tk ''job'' = None \<longrightarrow>
         execute_query lib self q ds w =
           Some (Inl (Exception (''Invalid response format. Keys: '' @
                        py_repr lib (JList (map (\<lambda>kv. JStr (fst kv)) tk)))),
                 answered [create_request lib self q ds, trigger_request lib self query_id] w) \<and>
         (\<forall>code. Exception (''Invalid response format. Keys: '' @
                        py_repr lib (JList (map (\<lambda>kv. JStr (fst kv)) tk))) \<noteq> HTTPError code)) \<and>
      (raise_for_status (incoming w 1) = Inr () \<and> response_json (incoming w 1) = Inr (JObj tk) \<and>
       map_of tk ''query_result'' = None \<and> map_of tk ''job'' = Some job \<and>
       py_subscript job ''id'' = Inr job_id \<and> (\<forall>k<n. pending (incoming w (k + 2))) \<longrightarrow>
         (error_status (incoming w (n + 2)) \<longrightarrow>
            execute_query lib self q ds w =
              Some (Inl (HTTPError (status_code (incoming w (n + 2)))),
                    left_at (job_request lib self job_id) n
                      (answered [create_request lib self q ds,
                                 trigger_request lib self query_id] w))) \<and>
         (observed (incoming w (n + 2)) = Some (JObj rk, st) \<and>
          py_eq_int st QUERY_STATUS_COMPLETED \<and>
          map_of rk ''query_result_id'' = Some result_id \<and>
          error_status (incoming w (n + 3)) \<longrightarrow>
            execute_query lib self q ds w =
              Some (Inl (HTTPError (status_code (incoming w (n + 3)))),
                    answered [result_request lib self result_id]
                      (left_at (job_request lib self job_id) n
                         (answered [create_request lib self q ds,
                                    trigger_request lib self query_id] w)))))) \<and>
   (raise_for_status (incoming w 0) = Inr () \<and> response_json (incoming w 0) = Inr created \<and>
    py_subscript created ''id'' = Inr query_id \<and>
    raise_for_status (incoming w 1) = Inr () \<and> response_json (incoming w 1) = Inr body \<and>
    py_in ''query_result'' body = Inr False \<and> py_in ''job'' body = Inr False \<and>
    (\<forall>kvs. body \<noteq> JObj kvs) \<longrightarrow>
      execute_query lib self q ds w =
        Some (Inl (AttributeError (type_name body)),
              answered [create_request lib self q ds, trigger_request lib self query_id] w)) \<and>
   (\<not> error_status r \<longrightarrow> raise_for_status r = Inr ())"
proof -
  let ?w2 = "answered [create_request lib self q ds, trigger_request lib self query_id] w"
  let ?rq = "job_request lib self job_id"
  have F: "execute_query lib self q ds w = Some (Inl (AttributeError (type_name body)), ?w2)"
    if c: "raise_for_status (incoming w 0) = Inr ()" "response_json (incoming w 0) = Inr created"
       "py_subscript created ''id'' = Inr query_id"
      and t: "raise_for_status (incoming w 1) = Inr ()" "response_json (incoming w 1) = Inr body"
       "py_in ''query_result'' body = Inr False" "py_in ''job'' body = Inr False"
      and nd: "\<forall>kvs. body \<noteq> JObj kvs"
    using execute_query_neither[OF c t, of lib self q ds] py_keys_not_dict[OF nd] by simp
  have G: "raise_for_status r = Inr ()" if "\<not> error_status r"
    using that by (rule raise_for_status_passes)
  have A: "execute_query lib self q ds w =
        Some (Inl (HTTPError (status_code (incoming w 0))),
              answered [create_request lib self q ds] w)"
    if "error_status (incoming w 0)"
    using that by (intro execute_query_create_fails raise_for_status_error)
  have B: "execute_query lib self q ds w =
           Some (Inl (HTTPError (status_code (incoming w 1))), ?w2)"
    if "raise_for_status (incoming w 0) = Inr ()" "response_json (incoming w 0) = Inr created"
       "py_subscript created ''id'' = Inr query_id" "error_status (incoming w 1)"
    using that by (intro execute_query_trigger_fails raise_for_status_error)
  have E: "execute_query lib self q ds w =
           Some (Inl (Exception (''Invalid response format. Keys: '' @
                        py_repr lib (JList (map (\<lambda>kv. JStr (fst kv)) tk)))), ?w2)"
    if c: "raise_for_status (incoming w 0) = Inr ()" "response_json (incoming w 0) = Inr created"
       "py_subscript created ''id'' = Inr query_id"
      and t: "raise_for_status (incoming w 1) = Inr ()" "response_json (incoming w 1) = Inr (JObj tk)"
      and k: "map_of tk ''query_result'' = None" "map_of tk ''job'' = None"
  proof -
    have i: "py_in ''query_result'' (JObj tk) = Inr False"
      and j: "py_in ''job'' (JObj tk) = Inr False"
      using k by simp_all
    from execute_query_neither[OF c t i j, of lib self q ds] show ?thesis by simp
  qed
  have C: "execute_query lib self q ds w =
              Some (Inl (HTTPError (status_code (incoming w (n + 2)))), left_at ?rq n ?w2)"
    if c: "raise_for_status (incoming w 0) = Inr ()" "response_json (incoming w 0) = Inr created"
       "py_subscript created ''id'' = Inr query_id"
      and t: "raise_for_status (incoming w 1) = Inr ()" "response_json (incoming w 1) = Inr (JObj tk)"
       "map_of tk ''query_result'' = None" "map_of tk ''job'' = Some job"
       "py_subscript job ''id'' = Inr job_id"
      and p: "\<forall>k<n. pending (incoming w (k + 2))"
      and e: "error_status (incoming w (n + 2))"
  proof -
    have before: "\<And>k. k < n \<Longrightarrow> job_tick lib (incoming ?w2 k) = None"
      using p by (simp add: incoming_answered tick_pending)
    have at: "job_tick lib (incoming ?w2 n) = Some (Inl (HTTPError (status_code (incoming w (n + 2)))))"
      using e by (simp add: incoming_answered tick_error_status)
    from poll_exit[OF before at, of self job_id]
    show ?thesis
      by (simp add: execute_query_queued[OF c t] fetch_result_raised)
  qed
  have D: "execute_query lib self q ds w =
              Some (Inl (HTTPError (status_code (incoming w (n + 3)))),
                    answered [result_request lib self result_id] (left_at ?rq n ?w2))"
    if c: "raise_for_status (incoming w 0) = Inr ()" "response_json (incoming w 0) = Inr created"
       "py_subscript created ''id'' = Inr query_id"
      and t: "raise_for_status (incoming w 1) = Inr ()" "response_json (incoming w 1) = Inr (JObj tk)"
       "map_of tk ''query_result'' = None" "map_of tk ''job'' = Some job"
       "py_subscript job ''id'' = Inr job_id"
      and p: "\<forall>k<n. pending (incoming w (k + 2))"
      and o: "observed (incoming w (n + 2)) = Some (JObj rk, st)"
       "py_eq_int st QUERY_STATUS_COMPLETED"
      and r: "map_of rk ''query_result_id'' = Some result_id"
      and e: "error_status (incoming w (n + 3))"
  proof -
    have before: "\<And>k. k < n \<Longrightarrow> job_tick lib (incoming ?w2 k) = None"
      using p by (simp add: incoming_answered tick_pending)
    have "observed (incoming ?w2 n) = Some (JObj rk, st)"
      using o(1) by (simp add: incoming_answered)
    from tick_of_observed[OF this, of lib] o(2)
    have at: "job_tick lib (incoming ?w2 n) = Some (Inr (JObj rk))" by simp
    have rid: "py_subscript (JObj rk) ''query_result_id'' = Inr result_id"
      using r by simp
    have "incoming (left_at ?rq n ?w2) 0 = incoming w (n + 3)"
      by (simp add: incoming_left_at incoming_answered eval_nat_numeral)
    with e have "raise_for_status (incoming (left_at ?rq n ?w2) 0) =
                 Inl (HTTPError (status_code (incoming w (n + 3))))"
      by (simp add: raise_for_status_error)
    from fetch_result_http_fails[OF rid this, of lib self q] poll_exit[OF before at, of self job_id]
    show ?thesis
      by (simp add: execute_query_queued[OF c t])
  qed
  show ?thesis
    by (intro conjI impI allI; (elim conjE)?;
        ((rule A B C D E F G; assumption) | simp))
qed


lemma error_response_status:
  "error_status (error_response 500)" "error_status (error_response 502)"
  "error_status (error_response 503)" "error_status (error_response 404)"
  "status_code (error_response code) = code"
  by (simp_all add: error_status_def error_response_def)

lemma pending_report_2: "pending (status_report (JObj [(''status'', JInt 2)]))"
  by (simp add: pending_def observed_report QUERY_STATUS_COMPLETED_def QUERY_STATUS_FAILED_def)

theorem C7_execute_query_failures_witness:
  "execute_query example_library example_client ''SELECT 1'' None
     (service (\<lambda>k. error_response 500))
   = Some (Inl (HTTPError 500),
           answered [create_request example_library example_client ''SELECT 1'' None]
             (service (\<lambda>k. error_response 500))) \<and>
   execute_query example_library example_client ''SELECT 1'' None
     (service (\<lambda>k. if k = 0 then json_response (JObj [(''id'', JInt 7)])
                     else error_response 502))
   = Some (Inl (HTTPError 502),
           answered [create_request example_library example_client ''SELECT 1'' None,
                     trigger_request example_library example_client (JInt 7)]
             (service (\<lambda>k. if k = 0 then json_response (JObj [(''id'', JInt 7)])
                     else error_response 502))) \<and>
   execute_query example_library example_client ''SELECT 1'' None
     (service (\<lambda>k. if k = 0 then json_response (JObj [(''id'', JInt 7)])
                     else json_response (JObj [])))
   = Some (Inl (Exception ''Invalid response format. Keys: <repr>''),
           answered [create_request example_library example_client ''SELECT 1'' None,
                     trigger_request example_library example_client (JInt 7)]
             (service (\<lambda>k. if k = 0 then json_response (JObj [(''id'', JInt 7)])
                     else json_response (JObj [])))) \<and>
   execute_query example_library example_client ''SELECT 1'' None
     (service (\<lambda>k. if k = 0 then json_response (JObj [(''id'', JInt 7)])
                     else if k = 1 then json_response (JObj [(''job'', JObj [(''id'', JStr ''abc'')])])
                     else if k = 2 then status_report (JObj [(''status'', JInt 2)])
                     else error_response 503))
   = Some (Inl (HTTPError 503),
           left_at (job_request example_library example_client (JStr ''abc'')) 1
            (answered [create_request example_library example_client ''SELECT 1'' None,
                       trigger_request example_library example_client (JInt 7)]
             (service (\<lambda>k. if k = 0 then json_response (JObj [(''id'', JInt 7)])
                     else if k = 1 then json_response (JObj [(''job'', JObj [(''id'', JStr ''abc'')])])
                     else if k = 2 then status_report (JObj [(''status'', JInt 2)])
                     else error_response 503)))) \<and>
   execute_query example_library example_client ''SELECT 1'' None
     (service (\<lambda>k. if k = 0 then json_response (JObj [(''id'', JInt 7)])
                     else if k = 1 then json_response (JObj [(''job'', JObj [(''id'', JStr ''abc'')])])
                     else if k = 2 then status_report (JObj [(''status'', JInt 2)])
                     else if k = 3 then status_report
                            (JObj [(''status'', JInt 3), (''query_result_id'', JInt 99)])
                     else error_response 404))
   = Some (Inl (HTTPError 404),
           answered [result_request example_library example_client (JInt 99)]
            (left_at (job_request example_library example_client (JStr ''abc'')) 1
             (answered [create_request example_library example_client ''SELECT 1'' None,
                        trigger_request example_library example_client (JInt 7)]
              (service (\<lambda>k. if k = 0 then json_response (JObj [(''id'', JInt 7)])
                     else if k = 1 then json_response (JObj [(''job'', JObj [(''id'', JStr ''abc'')])])
                     else if k = 2 then status_report (JObj [(''status'', JInt 2)])
                     else if k = 3 then status_report
                            (JObj [(''status'', JInt 3), (''query_result_id'', JInt 99)])
                     else error_response 404))))) \<and>
   execute_query example_library example_client ''SELECT 1'' None
     (service (\<lambda>k. if k = 0 then json_response (JObj [(''id'', JInt 7)])
                     else json_response (JStr ''accepted'')))
   = Some (Inl (AttributeError ''str''),
           answered [create_request example_library example_client ''SELECT 1'' None,
                     trigger_request example_library example_client (JInt 7)]
             (service (\<lambda>k. if k = 0 then json_response (JObj [(''id'', JInt 7)])
                     else json_response (JStr ''accepted'')))) \<and>
   raise_for_status \<lparr>status_code = 304, content = None\<rparr> = Inr ()"
proof -
  note ev = service_def json_response_ok error_response_status pending_report_2 observed_report
    QUERY_STATUS_COMPLETED_def
  let ?L = example_library and ?C = example_client and ?q = "''SELECT 1''"
  let ?wa = "service (\<lambda>k. error_response 500)"
  let ?wb = "service (\<lambda>k. if k = 0 then json_response (JObj [(''id'', JInt 7)])
                     else error_response 502)"
  let ?we = "service (\<lambda>k. if k = 0 then json_response (JObj [(''id'', JInt 7)])
                     else json_response (JObj []))"
  let ?wc = "service (\<lambda>k. if k = 0 then json_response (JObj [(''id'', JInt 7)])
                     else if k = 1 then json_response (JObj [(''job'', JObj [(''id'', JStr ''abc'')])])
                     else if k = 2 then status_report (JObj [(''status'', JInt 2)])
                     else error_response 503)"
  let ?wd = "service (\<lambda>k. if k = 0 then json_response (JObj [(''id'', JInt 7)])
                     else if k = 1 then json_response (JObj [(''job'', JObj [(''id'', JStr ''abc'')])])
                     else if k = 2 then status_report (JObj [(''status'', JInt 2)])
                     else if k = 3 then status_report
                            (JObj [(''status'', JInt 3), (''query_result_id'', JInt 99)])
                     else error_response 404)"
  have a: "execute_query ?L ?C ?q None ?wa
     = Some (Inl (HTTPError 500), answered [create_request ?L ?C ?q None] ?wa)"
    using C7_execute_query_failures[where w = ?wa and lib = ?L and self = ?C and q = ?q
        and ds = None]
    by (simp add: ev)
  have b: "execute_query ?L ?C ?q None ?wb
     = Some (Inl (HTTPError 502),
             answered [create_request ?L ?C ?q None, trigger_request ?L ?C (JInt 7)] ?wb)"
    using C7_execute_query_failures[where w = ?wb and lib = ?L and self = ?C and q = ?q
        and ds = None and created = "JObj [(''id'', JInt 7)]" and query_id = "JInt 7"]
    by (simp add: ev)
  have e: "execute_query ?L ?C ?q None ?we
     = Some (Inl (Exception ''Invalid response format. Keys: <repr>''),
             answered [create_request ?L ?C ?q None, trigger_request ?L ?C (JInt 7)] ?we)"
    using C7_execute_query_failures[where w = ?we and lib = ?L and self = ?C and q = ?q
        and ds = None and created = "JObj [(''id'', JInt 7)]" and query_id = "JInt 7"
        and tk = "[]"]
    by (simp add: ev example_library_def)
  have c: "execute_query ?L ?C ?q None ?wc
     = Some (Inl (HTTPError 503),
             left_at (job_request ?L ?C (JStr ''abc'')) 1
               (answered [create_request ?L ?C ?q None, trigger_request ?L ?C (JInt 7)] ?wc))"
    using C7_execute_query_failures[where w = ?wc and lib = ?L and self = ?C and q = ?q
        and ds = None and created = "JObj [(''id'', JInt 7)]" and query_id = "JInt 7"
        and tk = "[(''job'', JObj [(''id'', JStr ''abc'')])]"
        and job = "JObj [(''id'', JStr ''abc'')]" and job_id = "JStr ''abc''" and n = 1]
    by (simp add: ev)
  have d: "execute_query ?L ?C ?q None ?wd
     = Some (Inl (HTTPError 404),
             answered [result_request ?L ?C (JInt 99)]
               (left_at (job_request ?L ?C (JStr ''abc'')) 1
                 (answered [create_request ?L ?C ?q None, trigger_request ?L ?C (JInt 7)] ?wd)))"
    using C7_execute_query_failures[where w = ?wd and lib = ?L and self = ?C and q = ?q
        and ds = None and created = "JObj [(''id'', JInt 7)]" and query_id = "JInt 7"
        and tk = "[(''job'', JObj [(''id'', JStr ''abc'')])]"
        and job = "JObj [(''id'', JStr ''abc'')]" and job_id = "JStr ''abc''" and n = 1
        and rk = "[(''status'', JInt 3), (''query_result_id'', JInt 99)]" and st = "JInt 3"
        and result_id = "JInt 99"]
    by (simp add: ev)
  let ?wf = "service (\<lambda>k. if k = 0 then json_response (JObj [(''id'', JInt 7)])
                     else json_response (JStr ''accepted''))"
  have f: "execute_query ?L ?C ?q None ?wf
     = Some (Inl (AttributeError ''str''),
             answered [create_request ?L ?C ?q None, trigger_request ?L ?C (JInt 7)] ?wf)"
    using C7_execute_query_failures[where w = ?wf and lib = ?L and self = ?C and q = ?q
        and ds = None and created = "JObj [(''id'', JInt 7)]" and query_id = "JInt 7"
        and body = "JStr ''accepted''"]
    by (simp add: ev)
  have g: "raise_for_status \<lparr>status_code = 304, content = None\<rparr> = Inr ()"
    using C7_execute_query_failures[where r = "\<lparr>status_code = 304, content = None\<rparr>"]
    by (simp add: error_status_def)
  from a b e c d f g show ?thesis by (intro conjI)
qed

section \<open>execute_predefined_query, stage by stage\<close>

lemma predefined_trigger_fails:
  assumes "raise_for_status (incoming w 0) = Inl e"
  shows "execute_predefined_query lib self query_id parameters w =
         Some (Inl e, answered [predefined_request lib self query_id parameters] w)"
  using assms
  by (simp add: execute_predefined_query_def requests_post_def http_request_def
        predefined_request_def answered_def Let_def)

lemma predefined_trigger_no_json:
  assumes "raise_for_status (incoming w 0) = Inr u" and "response_json (incoming w 0) = Inl e"
  shows "execute_predefined_query lib self query_id parameters w =
         Some (Inl e, answered [predefined_request lib self query_id parameters] w)"
  using assms
  by (simp add: execute_predefined_query_def requests_post_def http_request_def
        predefined_request_def answered_def Let_def)

lemma predefined_in_fails:
  assumes "raise_for_status (incoming w 0) = Inr u" and "response_json (incoming w 0) = Inr body"
    and "py_in ''job'' body = Inl e"
  shows "execute_predefined_query lib self query_id parameters w =
         Some (Inl e, answered [predefined_request lib self query_id parameters] w)"
  using assms
  by (simp add: execute_predefined_query_def requests_post_def http_request_def
        predefined_request_def answered_def Let_def)

lemma predefined_no_job:
  assumes "raise_for_status (incoming w 0) = Inr u" and "response_json (incoming w 0) = Inr body"
    and "py_in ''job'' body = Inr False"
  shows "execute_predefined_query lib self query_id parameters w =
         Some (Inl (Exception (''Invalid response format: '' @ py_str (py_repr lib) body)),
               answered [predefined_request lib self query_id parameters] w)"
  using assms
  by (simp add: execute_predefined_query_def requests_post_def http_request_def
        predefined_request_def answered_def Let_def)

lemma predefined_job_shape:
  assumes "raise_for_status (incoming w 0) = Inr u" and "response_json (incoming w 0) = Inr body"
    and "py_in ''job'' body = Inr True"
  shows "execute_predefined_query lib self query_id parameters w =
     (case py_subscript body ''job'' of
        Inl e \<Rightarrow> Some (Inl e, answered [predefined_request lib self query_id parameters] w)
      | Inr job \<Rightarrow>
        (case py_subscript job ''id'' of
           Inl e \<Rightarrow> Some (Inl e, answered [predefined_request lib self query_id parameters] w)
         | Inr job_id \<Rightarrow>
             fetch_result lib self []
               (poll_job_status lib self job_id
                  (answered [predefined_request lib self query_id parameters] w))))"
proof (cases "py_subscript body ''job''")
  case (Inl e)
  with assms show ?thesis
    by (simp add: execute_predefined_query_def requests_post_def http_request_def
        predefined_request_def answered_def Let_def)
next
  case (Inr job)
  note job = this
  show ?thesis
  proof (cases "py_subscript job ''id''")
    case (Inl e)
    with assms job show ?thesis
      by (simp add: execute_predefined_query_def requests_post_def http_request_def
        predefined_request_def answered_def Let_def)
  next
    case (Inr job_id)
    with assms job show ?thesis
      by (simp add: execute_predefined_query_def requests_post_def http_request_def
        predefined_request_def answered_def Let_def fetch_result_def)
  qed
qed

text \<open>The two ways \<open>execute_predefined_query\<close> ends: an exception before the polling
  loop, or the polling loop and what follows it; either way after the trigger request.\<close>

lemma predefined_ends:
  "(\<exists>e. execute_predefined_query lib self query_id parameters w =
          Some (Inl e, answered [predefined_request lib self query_id parameters] w)) \<or>
   (\<exists>job_id. execute_predefined_query lib self query_id parameters w =
        fetch_result lib self []
          (poll_job_status lib self job_id
             (answered [predefined_request lib self query_id parameters] w)))"
proof (cases "raise_for_status (incoming w 0)")
  case (Inl e)
  from predefined_trigger_fails[OF this] show ?thesis by blast
next
  case (Inr u)
  note t1 = this
  show ?thesis
  proof (cases "response_json (incoming w 0)")
    case (Inl e)
    from predefined_trigger_no_json[OF t1 this] show ?thesis by blast
  next
    case (Inr body)
    note t2 = this
    show ?thesis
    proof (cases "py_in ''job'' body")
      case (Inl e)
      from predefined_in_fails[OF t1 t2 this] show ?thesis by blast
    next
      case (Inr queued)
      show ?thesis
      proof (cases queued)
        case False
        with Inr have "py_in ''job'' body = Inr False" by simp
        from predefined_no_job[OF t1 t2 this] show ?thesis by blast
      next
        case True
        with Inr have "py_in ''job'' body = Inr True" by simp
        from predefined_job_shape[OF t1 t2 this, of lib self query_id parameters]
        show ?thesis
          by (cases "py_subscript body ''job''";
              cases "py_subscript (projr (py_subscript body ''job'')) ''id''") auto
      qed
    qed
  qed
qed

text \<open>The requests of a run are never taken back.\<close>

lemma poll_returns_left_at:
  assumes "poll_job_status lib self job_id w = Some y"
  shows "\<exists>n r. y = (r, left_at (job_request lib self job_id) n w)"
proof -
  from poll_returns_tick[OF assms] obtain k where "job_tick lib (incoming w k) \<noteq> None" by blast
  from first_tick[OF this] obtain n r
    where before: "\<forall>j<n. job_tick lib (incoming w j) = None"
      and at: "job_tick lib (incoming w n) = Some r"
    by blast
  from before have "\<And>j. j < n \<Longrightarrow> job_tick lib (incoming w j) = None" by blast
  from poll_exit[OF this at, of self job_id] assms
  have "y = (r, left_at (job_request lib self job_id) n w)" by simp
  then show ?thesis by blast
qed

lemma fetch_result_sent:
  assumes "fetch_result lib self q (Some (r, w3)) = Some (v, w')"
  shows "\<exists>rest. sent w' = sent w3 @ rest"
proof (cases r)
  case (Inl e)
  with assms show ?thesis by (simp add: fetch_result_raised)
next
  case (Inr job_result)
  note r = this
  show ?thesis
  proof (cases "py_subscript job_result ''query_result_id''")
    case (Inl e)
    from fetch_result_no_id[OF this] assms r show ?thesis by simp
  next
    case (Inr result_id)
    note rid = this
    show ?thesis
    proof (cases "raise_for_status (incoming w3 0)")
      case (Inl e)
      from fetch_result_http_fails[OF rid this, of lib self q] assms r show ?thesis
        by (auto simp: answered_def)
    next
      case (Inr u)
      note ok = this
      show ?thesis
      proof (cases "response_json (incoming w3 0)")
        case (Inl e)
        from fetch_result_no_json[OF rid ok this, of lib self q] assms r show ?thesis
          by (auto simp: answered_def)
      next
        case (Inr result_data)
        from fetch_result_formats[OF rid ok this, of lib self q] assms r show ?thesis
          by (auto simp: answered_def)
      qed
    qed
  qed
qed

lemma predefined_first_request:
  assumes "execute_predefined_query lib self query_id parameters w = Some (v, w')"
  shows "\<exists>rest. sent w' = sent w @ predefined_request lib self query_id parameters # rest"
proof -
  let ?w1 = "answered [predefined_request lib self query_id parameters] w"
  consider (raised) e where
      "execute_predefined_query lib self query_id parameters w = Some (Inl e, ?w1)"
    | (waited) job_id where
      "execute_predefined_query lib self query_id parameters w =
         fetch_result lib self [] (poll_job_status lib self job_id ?w1)"
    using predefined_ends[of lib self query_id parameters w] by blast
  then show ?thesis
  proof cases
    case raised
    with assms have "w' = ?w1" by simp
    then show ?thesis by (simp add: answered_def)
  next
    case waited
    with assms have f: "fetch_result lib self [] (poll_job_status lib self job_id ?w1) = Some (v, w')"
      by simp
    then obtain y where y: "poll_job_status lib self job_id ?w1 = Some y"
      by (cases "poll_job_status lib self job_id ?w1") (simp_all add: fetch_result_None)
    from poll_returns_left_at[OF y] obtain n r
      where "y = (r, left_at (job_request lib self job_id) n ?w1)" by blast
    with f y have "fetch_result lib self [] (Some (r, left_at (job_request lib self job_id) n ?w1))
        = Some (v, w')" by simp
    from fetch_result_sent[OF this] obtain rest
      where "sent w' = sent (left_at (job_request lib self job_id) n ?w1) @ rest" by blast
    then show ?thesis by (simp add: left_at_def answered_def)
  qed
qed


section \<open>Claims about execute_predefined_query\<close>

text \<open>
  C6 (as the code has it). The claim says that a parameters mapping that is present is
  passed as the job payload. \<open>if parameters\<close> tests its truthiness, so the empty
  mapping \<open>{}\<close>, though present, is left out like \<open>None\<close>: the request carries the
  payload \<open>{}\<close>, not \<open>{"parameters": {}}\<close>.
\<close>

theorem C6_empty_parameters_are_omitted:
  "execute_predefined_query example_library example_client 7 (Some [])
     (service (\<lambda>k. json_response (JObj [])))
   = Some (Inl (Exception ''Invalid response format: <repr>''),
           \<lparr>incoming = (\<lambda>k. json_response (JObj [])),
            sent = [\<lparr>req_method = ''POST'',
                     req_url = ''http://redash/api/queries/<repr>/results'',
                     req_json = Some (JObj []),
                     req_headers = [(''Authorization'', ''Key k''),
                                    (''Content-Type'', ''application/json'')]\<rparr>],
            slept = 0\<rparr>) \<and>
   JObj [] \<noteq> JObj [(''parameters'', JObj [])]"
proof -
  let ?w = "service (\<lambda>k. json_response (JObj []))"
  have a: "raise_for_status (incoming ?w 0) = Inr ()"
    and b: "response_json (incoming ?w 0) = Inr (JObj [])"
    and c: "py_in ''job'' (JObj []) = Inr False"
    by (simp_all add: service_def json_response_ok)
  from predefined_no_job[OF a b c, of example_library example_client 7 "Some []"]
  show ?thesis
    by (simp add: answered_def predefined_request_def service_def example_library_def
          example_client_def)
qed

text \<open>
  C6, amended. When the trigger response is a success whose body is a dict without the
  key \<open>job\<close> (as \<open>{}\<close> is), \<open>execute_predefined_query\<close> fails with
  \<open>Exception("Invalid response format: ...")\<close> (the ProtocolError). Every run that ends
  has sent the trigger request first, and its payload is \<open>{"parameters": parameters}\<close>
  when the parameters mapping is present and not empty, and \<open>{}\<close> when it is absent or
  empty.
\<close>

theorem C6_predefined_needs_job_handle:
  "(raise_for_status (incoming w 0) = Inr () \<and> response_json (incoming w 0) = Inr (JObj tk) \<and>
    map_of tk ''job'' = None \<longrightarrow>
      execute_predefined_query lib self query_id parameters w =
        Some (Inl (Exception (''Invalid response format: '' @ py_repr lib (JObj tk))),
              answered [predefined_request lib self query_id parameters] w)) \<and>
   (execute_predefined_query lib self query_id parameters w = Some (v, w') \<longrightarrow>
      (\<exists>rest. sent w' = sent w @ predefined_request lib self query_id parameters # rest)) \<and>
   (parameters = Some ps \<and> ps \<noteq> [] \<longrightarrow>
      req_json (predefined_request lib self query_id parameters) =
        Some (JObj [(''parameters'', JObj ps)])) \<and>
   (parameters = None \<or> parameters = Some [] \<longrightarrow>
      req_json (predefined_request lib self query_id parameters) = Some (JObj []))"
proof (intro conjI impI)
  assume a: "raise_for_status (incoming w 0) = Inr () \<and>
    response_json (incoming w 0) = Inr (JObj tk) \<and> map_of tk ''job'' = None"
  then have "py_in ''job'' (JObj tk) = Inr False" by simp
  with a predefined_no_job[of w "()" "JObj tk" lib self query_id parameters]
  show "execute_predefined_query lib self query_id parameters w =
        Some (Inl (Exception (''Invalid response format: '' @ py_repr lib (JObj tk))),
              answered [predefined_request lib self query_id parameters] w)"
    by simp
next
  assume "execute_predefined_query lib self query_id parameters w = Some (v, w')"
  then show "\<exists>rest. sent w' = sent w @ predefined_request lib self query_id parameters # rest"
    by (rule predefined_first_request)
next
  assume "parameters = Some ps \<and> ps \<noteq> []"
  then show "req_json (predefined_request lib self query_id parameters) =
        Some (JObj [(''parameters'', JObj ps)])"
    by (simp add: predefined_request_def)
next
  assume "parameters = None \<or> parameters = Some []"
  then show "req_json (predefined_request lib self query_id parameters) = Some (JObj [])"
    by (auto simp: predefined_request_def)
qed

theorem C6_predefined_needs_job_handle_witness:
  "execute_predefined_query example_library example_client 7
     (Some [(''start_date'', JStr ''2024-01-01'')])
     (service (\<lambda>k. json_response (JObj [])))
   = Some (Inl (Exception ''Invalid response format: <repr>''),
           answered [predefined_request example_library example_client 7
                       (Some [(''start_date'', JStr ''2024-01-01'')])]
             (service (\<lambda>k. json_response (JObj [])))) \<and>
   req_json (predefined_request example_library example_client 7
               (Some [(''start_date'', JStr ''2024-01-01'')]))
   = Some (JObj [(''parameters'', JObj [(''start_date'', JStr ''2024-01-01'')])]) \<and>
   req_json (predefined_request example_library example_client 7 None) = Some (JObj [])"
proof -
  let ?w = "service (\<lambda>k. json_response (JObj []))"
  let ?ps = "[(''start_date'', JStr ''2024-01-01'')]"
  have a: "raise_for_status (incoming ?w 0) = Inr ()"
    and b: "response_json (incoming ?w 0) = Inr (JObj [])"
    by (simp_all add: service_def json_response_ok)
  from C6_predefined_needs_job_handle[where w = ?w and tk = "[]" and lib = example_library
      and self = example_client and query_id = 7 and parameters = "Some ?ps" and ps = ?ps] a b
  have first: "execute_predefined_query example_library example_client 7 (Some ?ps) ?w
     = Some (Inl (Exception ''Invalid response format: <repr>''),
             answered [predefined_request example_library example_client 7 (Some ?ps)] ?w)"
    and payload: "req_json (predefined_request example_library example_client 7 (Some ?ps))
     = Some (JObj [(''parameters'', JObj ?ps)])"
    by (simp_all add: example_library_def)
  from C6_predefined_needs_job_handle[where lib = example_library
      and self = example_client and query_id = 7 and parameters = None]
  have "req_json (predefined_request example_library example_client 7 None) = Some (JObj [])"
    by simp
  with first payload show ?thesis by (intro conjI)
qed

section \<open>Failures at the gateway\<close>

lemma list_data_sources_fails:
  assumes "raise_for_status (incoming w 0) = Inl e"
  shows "list_data_sources self w = (Inl e, answered [data_sources_request self] w)"
  using assms
  by (simp add: list_data_sources_def requests_get_def http_request_def data_sources_request_def
        answered_def)

lemma get_data_sources_fails:
  assumes "list_data_sources self w = (Inl e, w')"
  shows "get_data_sources lib self w =
         (Inl (HTTPException 500 (''Failed to fetch data sources: '' @ exc_str lib e)), w')"
  using assms by (simp add: get_data_sources_def HTTP_500_INTERNAL_SERVER_ERROR_def)

lemma ask_question_fails:
  assumes "execute_query lib self (chosen_sql request) None w = Some (Inl e, w')"
  shows "ask_question lib self request w =
         Some (Inl (HTTPException 500 (''Query execution failed: '' @ exc_str lib e)), w')"
  using assms by (simp add: ask_question_def HTTP_500_INTERNAL_SERVER_ERROR_def)

lemma ask_predefined_question_fails:
  assumes "execute_predefined_query lib self query_id (rq_parameters prequest) w = Some (Inl e, w')"
  shows "ask_predefined_question lib self query_id prequest w =
         Some (Inl (HTTPException 500 (exc_str lib e)), w')"
  using assms by (simp add: ask_predefined_question_def HTTP_500_INTERNAL_SERVER_ERROR_def)

text \<open>
  C9. Whatever exception \<open>e\<close> the client raises (the \<open>HTTPError\<close> of an upstream
  failure, the \<open>Exception\<close> of a protocol violation or of a failed job, or any other),
  each of the three endpoints \<open>/data-sources\<close>, \<open>/ask\<close> and
  \<open>/ask/predefined/{query_id}\<close> answers with status 500 and a detail text that carries
  \<open>str(e)\<close>: as it is for the predefined endpoint, after the fixed label
  \<open>"Failed to fetch data sources: "\<close> or \<open>"Query execution failed: "\<close> for the other
  two. For the exceptions the client builds itself \<open>str(e)\<close> is the message it gave
  them. The status code is the same for every \<open>e\<close>.
\<close>

theorem C9_gateway_maps_every_failure_to_500:
  "(list_data_sources self w = (Inl e, w') \<longrightarrow>
      get_data_sources lib self w =
        (Inl (HTTPException 500 (''Failed to fetch data sources: '' @ exc_str lib e)), w')) \<and>
   (execute_query lib self (chosen_sql request) None w = Some (Inl e, w') \<longrightarrow>
      ask_question lib self request w =
        Some (Inl (HTTPException 500 (''Query execution failed: '' @ exc_str lib e)), w')) \<and>
   (execute_predefined_query lib self query_id (rq_parameters prequest) w = Some (Inl e, w') \<longrightarrow>
      ask_predefined_question lib self query_id prequest w =
        Some (Inl (HTTPException 500 (exc_str lib e)), w')) \<and>
   exc_str lib (Exception m) = m \<and>
   exc_str lib (HTTPError code) = lib_exc_str lib (HTTPError code)"
proof (intro conjI impI)
  assume "list_data_sources self w = (Inl e, w')"
  then show "get_data_sources lib self w =
        (Inl (HTTPException 500 (''Failed to fetch data sources: '' @ exc_str lib e)), w')"
    by (rule get_data_sources_fails)
next
  assume "execute_query lib self (chosen_sql request) None w = Some (Inl e, w')"
  then show "ask_question lib self request w =
        Some (Inl (HTTPException 500 (''Query execution failed: '' @ exc_str lib e)), w')"
    by (rule ask_question_fails)
next
  assume "execute_predefined_query lib self query_id (rq_parameters prequest) w = Some (Inl e, w')"
  then show "ask_predefined_question lib self query_id prequest w =
        Some (Inl (HTTPException 500 (exc_str lib e)), w')"
    by (rule ask_predefined_question_fails)
next
  show "exc_str lib (Exception m) = m" by (simp add: exc_str_def)
next
  show "exc_str lib (HTTPError code) = lib_exc_str lib (HTTPError code)"
    by (simp add: exc_str_def)
qed


theorem C9_gateway_maps_every_failure_to_500_witness:
  "get_data_sources example_library example_client (service (\<lambda>k. error_response 500))
   = (Inl (HTTPException 500 ''Failed to fetch data sources: <str>''),
      answered [data_sources_request example_client] (service (\<lambda>k. error_response 500))) \<and>
   ask_question example_library example_client
     \<lparr>rq_question = ''SELECT 1'', rq_sql_query = None\<rparr>
     (service (\<lambda>k. if k = 0 then json_response (JObj [(''id'', JInt 7)])
                     else json_response (JObj [])))
   = Some (Inl (HTTPException 500
                  ''Query execution failed: Invalid response format. Keys: <repr>''),
           answered [create_request example_library example_client ''SELECT 1'' None,
                     trigger_request example_library example_client (JInt 7)]
             (service (\<lambda>k. if k = 0 then json_response (JObj [(''id'', JInt 7)])
                     else json_response (JObj [])))) \<and>
   ask_predefined_question example_library example_client 7 \<lparr>rq_parameters = None\<rparr>
     (service (\<lambda>k. if k = 0 then json_response (JObj [(''job'', JObj [(''id'', JStr ''abc'')])])
                     else status_report (JObj [(''status'', JInt 4), (''error'', JStr ''boom'')])))
   = Some (Inl (HTTPException 500 ''Query execution failed: boom''),
           left_at (job_request example_library example_client (JStr ''abc'')) 0
             (answered [predefined_request example_library example_client 7 None]
               (service (\<lambda>k. if k = 0
                     then json_response (JObj [(''job'', JObj [(''id'', JStr ''abc'')])])
                     else status_report
                            (JObj [(''status'', JInt 4), (''error'', JStr ''boom'')])))))"
proof -
  let ?L = example_library and ?C = example_client
  let ?wa = "service (\<lambda>k. error_response 500)"
  let ?wb = "service (\<lambda>k. if k = 0 then json_response (JObj [(''id'', JInt 7)])
                     else json_response (JObj []))"
  let ?wc = "service (\<lambda>k. if k = 0
                     then json_response (JObj [(''job'', JObj [(''id'', JStr ''abc'')])])
                     else status_report (JObj [(''status'', JInt 4), (''error'', JStr ''boom'')]))"
  let ?rq = "\<lparr>rq_question = ''SELECT 1'', rq_sql_query = None\<rparr>"
  let ?w1 = "answered [predefined_request ?L ?C 7 None] ?wc"
  txt \<open>\<open>/data-sources\<close>: the service answers 500.\<close>
  have "raise_for_status (incoming ?wa 0) = Inl (HTTPError 500)"
    by (simp add: service_def raise_for_status_error error_response_status)
  from list_data_sources_fails[OF this, of ?C]
  have a: "list_data_sources ?C ?wa = (Inl (HTTPError 500), answered [data_sources_request ?C] ?wa)" .
  txt \<open>\<open>/ask\<close>: the trigger response has neither key.\<close>
  have sql: "chosen_sql ?rq = ''SELECT 1''"
    by (simp add: chosen_sql_def)
  have "raise_for_status (incoming ?wb 0) = Inr ()"
    and "response_json (incoming ?wb 0) = Inr (JObj [(''id'', JInt 7)])"
    and "py_subscript (JObj [(''id'', JInt 7)]) ''id'' = Inr (JInt 7)"
    and "raise_for_status (incoming ?wb 1) = Inr ()"
    and "response_json (incoming ?wb 1) = Inr (JObj [])"
    and "py_in ''query_result'' (JObj []) = Inr False"
    and "py_in ''job'' (JObj []) = Inr False"
    by (simp_all add: service_def json_response_ok)
  from execute_query_neither[OF this, of ?L ?C "''SELECT 1''" None]
  have b: "execute_query ?L ?C (chosen_sql ?rq) None ?wb =
    Some (Inl (Exception ''Invalid response format. Keys: <repr>''),
          answered [create_request ?L ?C ''SELECT 1'' None, trigger_request ?L ?C (JInt 7)] ?wb)"
    by (simp add: sql example_library_def)
  txt \<open>\<open>/ask/predefined/7\<close>: the job fails.\<close>
  have "raise_for_status (incoming ?wc 0) = Inr ()"
    and "response_json (incoming ?wc 0) = Inr (JObj [(''job'', JObj [(''id'', JStr ''abc'')])])"
    and "py_in ''job'' (JObj [(''job'', JObj [(''id'', JStr ''abc'')])]) = Inr True"
    by (simp_all add: service_def json_response_ok)
  from predefined_job_shape[OF this, of ?L ?C 7 None]
  have shape: "execute_predefined_query ?L ?C 7 None ?wc =
    fetch_result ?L ?C [] (poll_job_status ?L ?C (JStr ''abc'') ?w1)"
    by simp
  have before: "\<And>k. k < 0 \<Longrightarrow> job_tick ?L (incoming ?w1 k) = None" by simp
  have "observed (incoming ?w1 0) =
        Some (JObj [(''status'', JInt 4), (''error'', JStr ''boom'')], JInt 4)"
    by (simp add: incoming_answered service_def observed_report)
  from tick_of_observed[OF this, of ?L]
  have at: "job_tick ?L (incoming ?w1 0) = Some (Inl (Exception ''Query execution failed: boom''))"
    by (simp add: QUERY_STATUS_COMPLETED_def QUERY_STATUS_FAILED_def dict_get_def)
  from poll_exit[OF before at, of ?C "JStr ''abc''"] shape
  have c: "execute_predefined_query ?L ?C 7 (rq_parameters \<lparr>rq_parameters = None\<rparr>) ?wc =
    Some (Inl (Exception ''Query execution failed: boom''),
          left_at (job_request ?L ?C (JStr ''abc'')) 0 ?w1)"
    by (simp add: fetch_result_raised)
  from C9_gateway_maps_every_failure_to_500[where lib = ?L and self = ?C and w = ?wa
         and e = "HTTPError 500" and w' = "answered [data_sources_request ?C] ?wa"] a
  have A: "get_data_sources ?L ?C ?wa
     = (Inl (HTTPException 500 ''Failed to fetch data sources: <str>''),
        answered [data_sources_request ?C] ?wa)"
    by (simp add: exc_str_def example_library_def)
  from C9_gateway_maps_every_failure_to_500[where lib = ?L and self = ?C and w = ?wb
         and request = ?rq and e = "Exception ''Invalid response format. Keys: <repr>''"
         and w' = "answered [create_request ?L ?C ''SELECT 1'' None,
                             trigger_request ?L ?C (JInt 7)] ?wb"] b
  have B: "ask_question ?L ?C ?rq ?wb
     = Some (Inl (HTTPException 500
                    ''Query execution failed: Invalid response format. Keys: <repr>''),
             answered [create_request ?L ?C ''SELECT 1'' None,
                       trigger_request ?L ?C (JInt 7)] ?wb)"
    by (simp add: exc_str_def)
  from C9_gateway_maps_every_failure_to_500[where lib = ?L and self = ?C and w = ?wc
         and query_id = 7 and prequest = "\<lparr>rq_parameters = None\<rparr>"
         and e = "Exception ''Query execution failed: boom''"
         and w' = "left_at (job_request ?L ?C (JStr ''abc'')) 0 ?w1"] c
  have C: "ask_predefined_question ?L ?C 7 \<lparr>rq_parameters = None\<rparr> ?wc
     = Some (Inl (HTTPException 500 ''Query execution failed: boom''),
             left_at (job_request ?L ?C (JStr ''abc'')) 0 ?w1)"
    by (simp add: exc_str_def)
  from A B C show ?thesis by (intro conjI)
qed

end
